theory Spec2Isabelle
  imports Complex_Main
begin

section \<open>The random source\<close>

text \<open>
  The program draws all its randomness from Python's process-wide generator
  (\<^verbatim>\<open>random.seed\<close> once, then \<^verbatim>\<open>random.randint\<close>, \<^verbatim>\<open>random.choice\<close>,
  \<^verbatim>\<open>random.random\<close>, \<^verbatim>\<open>random.gauss\<close>). The generator is modelled as the stream of its
  outcomes: a call consumes the head and returns the tail, so the order of the calls is
  part of the model. The general properties below hold for every stream; the examples
  use the stream that always draws 0. Floats are modelled as reals (exact arithmetic).
\<close>

type_synonym rng = "nat \<Rightarrow> real"

definition next_draw :: "rng \<Rightarrow> real \<times> rng" where
  "next_draw g = (g 0, \<lambda>n. g (Suc n))"

text \<open>\<^verbatim>\<open>random.random()\<close>: a value in [0, 1).\<close>

definition random_unit :: "rng \<Rightarrow> real \<times> rng" where
  "random_unit g = (case next_draw g of (x, g') \<Rightarrow> (frac x, g'))"

text \<open>\<^verbatim>\<open>random.randint(lo, hi)\<close>: an integer in [lo, hi].\<close>

definition randint :: "int \<Rightarrow> int \<Rightarrow> rng \<Rightarrow> int \<times> rng" where
  "randint lo hi g =
     (case random_unit g of (u, g') \<Rightarrow> (lo + \<lfloor>u * of_int (hi - lo + 1)\<rfloor>, g'))"

text \<open>\<^verbatim>\<open>random.choice(xs)\<close> on a non-empty list.\<close>

definition choice :: "'a list \<Rightarrow> rng \<Rightarrow> 'a \<times> rng" where
  "choice xs g =
     (case random_unit g of (u, g') \<Rightarrow> (xs ! nat \<lfloor>u * of_nat (length xs)\<rfloor>, g'))"

text \<open>\<^verbatim>\<open>random.gauss(mu, sigma)\<close>: the draw is the standard normal variate.\<close>

definition gauss :: "real \<Rightarrow> real \<Rightarrow> rng \<Rightarrow> real \<times> rng" where
  "gauss mu sigma g = (case next_draw g of (z, g') \<Rightarrow> (mu + sigma * z, g'))"

text \<open>The stream after k draws.\<close>

definition drop_draws :: "nat \<Rightarrow> rng \<Rightarrow> rng" where
  "drop_draws k g = (\<lambda>n. g (n + k))"

section \<open>Double-precision arithmetic\<close>

text \<open>
  Python's \<^verbatim>\<open>float\<close> is the IEEE 754 double. A finite double is a real number, and an
  operation on doubles gives the exact result rounded to the nearest double, ties to the
  even mantissa. The rounding below keeps 53 significant bits and leaves the exponent
  unbounded: it is the hardware's rounding as long as nothing overflows, since a sum or a
  difference of doubles in the subnormal range is exact. Infinities and NaN are not
  modelled. The adherence probability is computed with it. The other floats of the program
  stay reals: the properties below read them through comparisons and clamps only, which
  are exact.
\<close>

text \<open>
  The mantissa in [1, 2) of a positive real and the power of two that goes with it:
  \<open>mantissa_scale x 1 = (m, s)\<close> with \<open>m * s = x\<close>.
\<close>

function mantissa_scale :: "real \<Rightarrow> real \<Rightarrow> real \<times> real" where
  "mantissa_scale x scale =
     (if x \<le> 0 then (x, scale)
      else if 2 \<le> x then mantissa_scale (x / 2) (scale * 2)
      else if x < 1 then mantissa_scale (x * 2) (scale / 2)
      else (x, scale))"
  by pat_completeness auto
termination
proof (relation "measure (\<lambda>(x, scale). nat \<bar>\<lfloor>log 2 x\<rfloor>\<bar>)")
  show "wf (measure (\<lambda>(x, scale). nat \<bar>\<lfloor>log 2 x\<rfloor>\<bar>))"
    by simp
next
  fix x scale :: real
  assume "\<not> x \<le> 0" and big: "2 \<le> x"
  then have pos: "0 < x" by simp
  have "log 2 (x / 2) = log 2 x - 1"
    using pos by (simp add: log_divide)
  then have down: "\<lfloor>log 2 (x / 2)\<rfloor> = \<lfloor>log 2 x\<rfloor> - 1"
    by simp
  have "1 \<le> log 2 x"
    using big pos by (simp add: le_log_iff)
  then have one: "1 \<le> \<lfloor>log 2 x\<rfloor>"
    by (simp add: le_floor_iff)
  have "\<bar>\<lfloor>log 2 (x / 2)\<rfloor>\<bar> < \<bar>\<lfloor>log 2 x\<rfloor>\<bar>"
    unfolding down using one by linarith
  then show "((x / 2, scale * 2), (x, scale)) \<in> measure (\<lambda>(x, scale). nat \<bar>\<lfloor>log 2 x\<rfloor>\<bar>)"
    by simp
next
  fix x scale :: real
  assume "\<not> x \<le> 0" and "\<not> 2 \<le> x" and small: "x < 1"
  then have pos: "0 < x" by simp
  have "log 2 (x * 2) = log 2 x + 1"
    using pos by (simp add: log_mult)
  then have up: "\<lfloor>log 2 (x * 2)\<rfloor> = \<lfloor>log 2 x\<rfloor> + 1"
    by simp
  have "log 2 x < 0"
    using small pos by simp
  then have neg: "\<lfloor>log 2 x\<rfloor> \<le> - 1"
    by (simp add: floor_le_iff)
  have "\<bar>\<lfloor>log 2 (x * 2)\<rfloor>\<bar> < \<bar>\<lfloor>log 2 x\<rfloor>\<bar>"
    unfolding up using neg by linarith
  then show "((x * 2, scale / 2), (x, scale)) \<in> measure (\<lambda>(x, scale). nat \<bar>\<lfloor>log 2 x\<rfloor>\<bar>)"
    by simp
qed

declare mantissa_scale.simps [simp del]

text \<open>The nearest integer, ties to even.\<close>

definition round_half_even :: "real \<Rightarrow> int" where
  "round_half_even y =
     (let f = \<lfloor>y\<rfloor>; r = y - of_int f
      in if r < 1 / 2 then f else if 1 / 2 < r then f + 1 else if even f then f else f + 1)"

text \<open>The nearest double.\<close>

definition round_to_double :: "real \<Rightarrow> real" where
  "round_to_double x =
     (if x = 0 then 0
      else case mantissa_scale \<bar>x\<bar> 1 of
             (m, scale) \<Rightarrow> sgn x * (of_int (round_half_even (m * 2 ^ 52)) / 2 ^ 52) * scale)"

text \<open>Addition and subtraction of doubles.\<close>

definition fadd :: "real \<Rightarrow> real \<Rightarrow> real" where
  "fadd a b = round_to_double (a + b)"

definition fsub :: "real \<Rightarrow> real \<Rightarrow> real" where
  "fsub a b = round_to_double (a - b)"

section \<open>Interventions and the adherence model (interventions.py)\<close>

record intervention =
  name :: string
  domain :: string
  effect_vector :: "(string \<times> real) list"
  time_cost_hours :: real
  recommended_by :: string
  base_adherence :: real

definition en_dash :: string where
  "en_dash = [CHR 0xE2, CHR 0x80, CHR 0x93]"

definition times_sign :: string where
  "times_sign = [CHR 0xC3, CHR 0x97]"

definition default_interventions :: "intervention list" where
  "default_interventions =
    [\<lparr>name = ''Mediterranean-pattern meals; reduce refined carbs'', domain = ''Nutrition'',
      effect_vector = [(''apob'', - 0.7), (''ldl_c'', - 0.9), (''hs_crp'', - 0.06), (''bmi'', - 0.03)],
      time_cost_hours = 1.5, recommended_by = ''Carla'', base_adherence = 0.50\<rparr>,
     \<lparr>name = ''Omega-3 (EPA/DHA) supplementation'', domain = ''Nutrition'',
      effect_vector = [(''apob'', - 0.4), (''hs_crp'', - 0.05)],
      time_cost_hours = 0.1, recommended_by = ''Carla'', base_adherence = 0.50\<rparr>,
     \<lparr>name = ''Caffeine cutoff at 13:00'', domain = ''Sleep'',
      effect_vector = [(''sleep_hours'', 0.10), (''hrv_ms'', 0.5), (''rhr_bpm'', - 0.2)],
      time_cost_hours = 0.0, recommended_by = ''Carla'', base_adherence = 0.50\<rparr>,
     \<lparr>name = ''Morning light exposure (10'' @ en_dash @ ''15 min)'', domain = ''Sleep/Stress'',
      effect_vector = [(''sleep_hours'', 0.08), (''hrv_ms'', 0.6), (''rhr_bpm'', - 0.2)],
      time_cost_hours = 0.3, recommended_by = ''Advik'', base_adherence = 0.50\<rparr>,
     \<lparr>name = ''Zone-2 calibration run (1'' @ times_sign @ ''/wk)'', domain = ''Cardio'',
      effect_vector = [(''hrv_ms'', 0.7), (''rhr_bpm'', - 0.3), (''systolic_bp'', - 0.6),
                       (''diastolic_bp'', - 0.4)],
      time_cost_hours = 0.8, recommended_by = ''Advik'', base_adherence = 0.50\<rparr>,
     \<lparr>name = ''Strength training (2'' @ times_sign @ ''/wk) + daily 10-min mobility'',
      domain = ''PT'',
      effect_vector = [(''bmi'', - 0.04), (''systolic_bp'', - 0.5), (''diastolic_bp'', - 0.3)],
      time_cost_hours = 2.2, recommended_by = ''Rachel'', base_adherence = 0.50\<rparr>,
     \<lparr>name = ''Sodium awareness (restaurant swaps when traveling)'', domain = ''Nutrition/Travel'',
      effect_vector = [(''systolic_bp'', - 0.4), (''diastolic_bp'', - 0.3)],
      time_cost_hours = 0.2, recommended_by = ''Carla'', base_adherence = 0.50\<rparr>]"

text \<open>
  \<^verbatim>\<open>weekly_adherence_probability\<close>: the five conditional updates of \<^verbatim>\<open>p\<close> in the
  source's order, then \<^verbatim>\<open>max(0.05, min(0.95, p))\<close>, in doubles: each literal is the
  double nearest to it, and each \<^verbatim>\<open>+=\<close> and \<^verbatim>\<open>-=\<close> rounds. The comparison with 5.0 and
  the clamp are exact.
\<close>

definition weekly_adherence_probability ::
  "real \<Rightarrow> bool \<Rightarrow> bool \<Rightarrow> bool \<Rightarrow> bool \<Rightarrow> real \<Rightarrow> real" where
  "weekly_adherence_probability base travel pa_support busy_week last_week_win weekly_hours =
     (let p = base;
          p = (if travel then fsub p (round_to_double 0.15) else p);
          p = (if busy_week then fsub p (round_to_double 0.10) else p);
          p = (if pa_support then fadd p (round_to_double 0.10) else p);
          p = (if last_week_win then fadd p (round_to_double 0.05) else p);
          p = (if weekly_hours > 5.0 then fsub p (round_to_double 0.10) else p)
      in max (round_to_double 0.05) (min (round_to_double 0.95) p))"

text \<open>\<^verbatim>\<open>bernoulli(p)\<close>: \<^verbatim>\<open>random.random() < p\<close>.\<close>

definition bernoulli :: "real \<Rightarrow> rng \<Rightarrow> bool \<times> rng" where
  "bernoulli p g = (case random_unit g of (u, g') \<Rightarrow> (u < p, g'))"

section \<open>The biomarker state (state.py)\<close>

record biomarker_state =
  systolic_bp :: real
  diastolic_bp :: real
  apob :: real
  ldl_c :: real
  hs_crp :: real
  hba1c :: real
  bmi :: real
  hrv_ms :: real
  rhr_bpm :: real
  sleep_hours :: real
  week_index :: real
  adherence_log :: "string \<rightharpoonup> bool"
  weekly_hours_committed :: real
  weekly_hours_completed :: real

definition initial_state :: biomarker_state where
  "initial_state =
     \<lparr>systolic_bp = 134.0, diastolic_bp = 86.0, apob = 105.0, ldl_c = 140.0, hs_crp = 2.2,
      hba1c = 5.7, bmi = 26.0, hrv_ms = 40.0, rhr_bpm = 66.0, sleep_hours = 6.25,
      week_index = 0, adherence_log = Map.empty,
      weekly_hours_committed = 5.0, weekly_hours_completed = 0.0\<rparr>"

text \<open>
  \<^verbatim>\<open>_apply_delta(key, delta)\<close>: \<^verbatim>\<open>setattr(self, key, getattr(self, key) + delta)\<close> when
  the attribute exists, nothing otherwise. The numeric attributes of the dataclass are the
  keys of the model; the catalog and the noise table use the ten metrics only.
\<close>

definition apply_delta :: "string \<Rightarrow> real \<Rightarrow> biomarker_state \<Rightarrow> biomarker_state" where
  "apply_delta key delta s =
     (if key = ''systolic_bp'' then s\<lparr>systolic_bp := systolic_bp s + delta\<rparr>
      else if key = ''diastolic_bp'' then s\<lparr>diastolic_bp := diastolic_bp s + delta\<rparr>
      else if key = ''apob'' then s\<lparr>apob := apob s + delta\<rparr>
      else if key = ''ldl_c'' then s\<lparr>ldl_c := ldl_c s + delta\<rparr>
      else if key = ''hs_crp'' then s\<lparr>hs_crp := hs_crp s + delta\<rparr>
      else if key = ''hba1c'' then s\<lparr>hba1c := hba1c s + delta\<rparr>
      else if key = ''bmi'' then s\<lparr>bmi := bmi s + delta\<rparr>
      else if key = ''hrv_ms'' then s\<lparr>hrv_ms := hrv_ms s + delta\<rparr>
      else if key = ''rhr_bpm'' then s\<lparr>rhr_bpm := rhr_bpm s + delta\<rparr>
      else if key = ''sleep_hours'' then s\<lparr>sleep_hours := sleep_hours s + delta\<rparr>
      else if key = ''week_index'' then s\<lparr>week_index := week_index s + delta\<rparr>
      else if key = ''weekly_hours_committed''
        then s\<lparr>weekly_hours_committed := weekly_hours_committed s + delta\<rparr>
      else if key = ''weekly_hours_completed''
        then s\<lparr>weekly_hours_completed := weekly_hours_completed s + delta\<rparr>
      else s)"

fun apply_deltas :: "(string \<times> real) list \<Rightarrow> biomarker_state \<Rightarrow> biomarker_state" where
  "apply_deltas [] s = s"
| "apply_deltas ((key, delta) # rest) s = apply_deltas rest (apply_delta key delta s)"

definition apply_intervention_effects ::
  "(string \<times> real) list \<Rightarrow> bool \<Rightarrow> biomarker_state \<Rightarrow> biomarker_state" where
  "apply_intervention_effects ev adhered s = (if \<not> adhered then s else apply_deltas ev s)"

definition apply_travel_penalty :: "biomarker_state \<Rightarrow> biomarker_state" where
  "apply_travel_penalty s =
     apply_deltas [(''sleep_hours'', - 0.20), (''hrv_ms'', - 1.0), (''rhr_bpm'', 1.0),
                   (''systolic_bp'', 0.5), (''diastolic_bp'', 0.3)] s"

definition noise_spec :: "(string \<times> real) list" where
  "noise_spec =
     [(''systolic_bp'', 0.4), (''diastolic_bp'', 0.3), (''apob'', 0.6), (''ldl_c'', 0.8),
      (''hs_crp'', 0.10), (''hba1c'', 0.02), (''bmi'', 0.03), (''hrv_ms'', 0.8),
      (''rhr_bpm'', 0.5), (''sleep_hours'', 0.10)]"

fun add_noise_loop :: "(string \<times> real) list \<Rightarrow> biomarker_state \<Rightarrow> rng \<Rightarrow> biomarker_state \<times> rng" where
  "add_noise_loop [] s g = (s, g)"
| "add_noise_loop ((key, sigma) # rest) s g =
     (case gauss 0.0 sigma g of (jitter, g') \<Rightarrow> add_noise_loop rest (apply_delta key jitter s) g')"

definition add_noise :: "biomarker_state \<Rightarrow> rng \<Rightarrow> biomarker_state \<times> rng" where
  "add_noise s g = add_noise_loop noise_spec s g"

definition weekly_bounds :: "biomarker_state \<Rightarrow> biomarker_state" where
  "weekly_bounds s =
     s\<lparr>systolic_bp := min (max (systolic_bp s) 95.0) 170.0,
       diastolic_bp := min (max (diastolic_bp s) 55.0) 110.0,
       apob := min (max (apob s) 50.0) 200.0,
       ldl_c := min (max (ldl_c s) 40.0) 250.0,
       hs_crp := min (max (hs_crp s) 0.2) 10.0,
       hba1c := min (max (hba1c s) 4.8) 7.0,
       bmi := min (max (bmi s) 18.0) 35.0,
       hrv_ms := min (max (hrv_ms s) 20.0) 120.0,
       rhr_bpm := min (max (rhr_bpm s) 45.0) 90.0,
       sleep_hours := min (max (sleep_hours s) 4.0) 9.0\<rparr>"

text \<open>The physiological bands of the ten metrics.\<close>

definition in_bands :: "biomarker_state \<Rightarrow> bool" where
  "in_bands s \<longleftrightarrow>
     95 \<le> systolic_bp s \<and> systolic_bp s \<le> 170 \<and>
     55 \<le> diastolic_bp s \<and> diastolic_bp s \<le> 110 \<and>
     50 \<le> apob s \<and> apob s \<le> 200 \<and>
     40 \<le> ldl_c s \<and> ldl_c s \<le> 250 \<and>
     0.2 \<le> hs_crp s \<and> hs_crp s \<le> 10 \<and>
     4.8 \<le> hba1c s \<and> hba1c s \<le> 7.0 \<and>
     18 \<le> bmi s \<and> bmi s \<le> 35 \<and>
     20 \<le> hrv_ms s \<and> hrv_ms s \<le> 120 \<and>
     45 \<le> rhr_bpm s \<and> rhr_bpm s \<le> 90 \<and>
     4 \<le> sleep_hours s \<and> sleep_hours s \<le> 9"

section \<open>Clock and travel plan (calendar2.py)\<close>

text \<open>
  A \<^verbatim>\<open>datetime\<close> is the number of minutes of local wall-clock time since midnight of
  the start date. Every datetime of a run carries the same \<^verbatim>\<open>tzinfo\<close> object, so
  Python compares and subtracts them on the wall clock, and \<^verbatim>\<open>timedelta\<close> arithmetic
  and \<^verbatim>\<open>replace\<close> act on the wall clock too. Of the start date only its weekday
  (Monday = 0) is needed.
\<close>

type_synonym datetime = int

definition dt_day :: "datetime \<Rightarrow> int" where
  "dt_day t = t div 1440"

definition dt_hour :: "datetime \<Rightarrow> int" where
  "dt_hour t = (t mod 1440) div 60"

definition dt_minute :: "datetime \<Rightarrow> int" where
  "dt_minute t = t mod 60"

text \<open>\<^verbatim>\<open>base.replace(hour=h, minute=m)\<close>: same date, new time of day.\<close>

definition replace_time :: "datetime \<Rightarrow> int \<Rightarrow> int \<Rightarrow> datetime" where
  "replace_time base h m = dt_day base * 1440 + h * 60 + m"

text \<open>\<^verbatim>\<open>dt + timedelta(days=d)\<close>.\<close>

definition plus_days :: "datetime \<Rightarrow> int \<Rightarrow> datetime" where
  "plus_days t d = t + d * 1440"

record sim_clock =
  start_weekday :: int

definition weekday :: "sim_clock \<Rightarrow> datetime \<Rightarrow> int" where
  "weekday clock t = (start_weekday clock + dt_day t) mod 7"

text \<open>
  \<^verbatim>\<open>datetime_for\<close>: the date of \<^verbatim>\<open>start_date + timedelta(weeks=week - 1)\<close> at
  \<^verbatim>\<open>hour:minute\<close>, plus \<^verbatim>\<open>day_offset\<close> days.
\<close>

definition datetime_for :: "sim_clock \<Rightarrow> nat \<Rightarrow> int \<Rightarrow> int \<Rightarrow> int \<Rightarrow> datetime" where
  "datetime_for clock wk day_offset hour minute =
     plus_days ((int wk - 1) * 7 * 1440 + hour * 60 + minute) day_offset"

record travel_plan =
  travel_weeks :: "nat list"
  destinations :: "string list"

text \<open>\<^verbatim>\<open>xs.index(x)\<close> for an element of the list.\<close>

fun index_of :: "'a list \<Rightarrow> 'a \<Rightarrow> nat" where
  "index_of [] x = 0"
| "index_of (y # ys) x = (if y = x then 0 else Suc (index_of ys x))"

definition destination_for_week :: "travel_plan \<Rightarrow> nat \<Rightarrow> string option" where
  "destination_for_week tp wk =
     (if wk \<in> set (travel_weeks tp)
      then Some (destinations tp ! (index_of (travel_weeks tp) wk mod length (destinations tp)))
      else None)"

text \<open>\<^verbatim>\<open>range(4, weeks + 1, 4)\<close>.\<close>

definition build_travel_plan :: "nat \<Rightarrow> travel_plan" where
  "build_travel_plan weeks =
     \<lparr>travel_weeks = filter (\<lambda>w. (w - 4) mod 4 = 0) [4..<weeks + 1],
      destinations = [''United Kingdom'', ''United States'', ''South Korea'', ''Jakarta'']\<rparr>"

section \<open>The event scheduler (scheduler.py)\<close>

record event =
  kind :: string
  week :: nat
  "when" :: datetime
  meta :: "(string \<rightharpoonup> string) option"

definition Event :: "string \<Rightarrow> nat \<Rightarrow> datetime \<Rightarrow> event" where
  "Event k w t = \<lparr>kind = k, week = w, when = t, meta = None\<rparr>"

definition random_time :: "datetime \<Rightarrow> int \<Rightarrow> int \<Rightarrow> rng \<Rightarrow> datetime \<times> rng" where
  "random_time base hour_low hour_high g =
     (case randint hour_low hour_high g of (hour, g1) \<Rightarrow>
      case choice [0, 5, 10, 15, 20, 25, 30, 35, 40, 45, 50, 55] g1 of (minute, g2) \<Rightarrow>
        (replace_time base hour minute, g2))"

text \<open>The hard-coded list of \<^verbatim>\<open>build_events\<close>.\<close>

definition diagnostic_weeks :: "nat list" where
  "diagnostic_weeks = [4, 16, 28]"

text \<open>The loop \<^verbatim>\<open>for i in range(weekly_count)\<close> of the member-curiosity events.\<close>

fun curiosity_events :: "nat \<Rightarrow> nat \<Rightarrow> datetime \<Rightarrow> rng \<Rightarrow> event list \<times> rng" where
  "curiosity_events 0 w monday_9am g = ([], g)"
| "curiosity_events (Suc n) w monday_9am g =
     (case randint 0 6 g of (day, g1) \<Rightarrow>
      case random_time (plus_days monday_9am day) 8 20 g1 of (t, g2) \<Rightarrow>
      case curiosity_events n w monday_9am g2 of (rest, g3) \<Rightarrow>
        (Event ''member_curiosity'' w t # rest, g3))"

text \<open>The body of the loop \<^verbatim>\<open>for w in range(1, total_weeks + 1)\<close>: the events of week w.\<close>

definition week_events :: "sim_clock \<Rightarrow> travel_plan \<Rightarrow> nat \<Rightarrow> rng \<Rightarrow> event list \<times> rng" where
  "week_events clock travel w g0 =
     (let monday_9am = datetime_for clock w 0 9 0 in
      case random_time monday_9am 8 20 g0 of (t_report, g1) \<Rightarrow>
      case (if w mod 2 = 0
            then (case random_time monday_9am 8 20 g1 of (t, g') \<Rightarrow>
                    ([Event ''exercise_update'' w t], g'))
            else ([], g1)) of (ev_exercise, g2) \<Rightarrow>
      case (if w mod 2 = 0
            then (case random_time monday_9am 10 14 g2 of (t, g') \<Rightarrow>
                    ([Event ''medical_checkin'' w t], g'))
            else ([], g2)) of (ev_medical, g3) \<Rightarrow>
      case (if w \<in> {3, 7, 11, 15, 19, 23, 27, 31}
            then (case random_time monday_9am 11 16 g3 of (t, g') \<Rightarrow>
                    ([Event ''nutrition_update'' w t], g'))
            else ([], g3)) of (ev_nutrition, g4) \<Rightarrow>
      case (case destination_for_week travel w of
              None \<Rightarrow> ([], g4)
            | Some dest \<Rightarrow>
                if dest = [] then ([], g4)
                else (case random_time monday_9am 8 20 g4 of (t, g') \<Rightarrow>
                        ([(Event ''travel_adaptation'' w t)\<lparr>meta := Some [''dest'' \<mapsto> dest]\<rparr>], g')))
           of (ev_travel, g5) \<Rightarrow>
      case (if w \<in> set diagnostic_weeks
            then (case random_time monday_9am 8 11 g5 of (t_sched, g') \<Rightarrow>
                  let friday = plus_days monday_9am 4 in
                  case random_time friday 13 18 g' of (t_res, g'') \<Rightarrow>
                    ([Event ''diagnostics_schedule'' w t_sched,
                      Event ''diagnostics_results'' w t_res], g''))
            else ([], g5)) of (ev_diag, g6) \<Rightarrow>
      case randint 3 7 g6 of (weekly_count, g7) \<Rightarrow>
      case curiosity_events (nat weekly_count) w monday_9am g7 of (ev_curiosity, g8) \<Rightarrow>
      case random_unit g8 of (u, g9) \<Rightarrow>
      case (if u < 0.5
            then (case randint 1 6 g9 of (day, g') \<Rightarrow>
                  case random_time (plus_days monday_9am day) 8 20 g' of (t, g'') \<Rightarrow>
                    ([Event ''wearable_anomaly'' w t], g''))
            else ([], g9)) of (ev_wearable, g10) \<Rightarrow>
        ([Event ''weekly_report'' w t_report] @ ev_exercise @ ev_medical @ ev_nutrition @
         ev_travel @ ev_diag @ ev_curiosity @ ev_wearable, g10))"

text \<open>The loop over the weeks, from week w, n weeks to go.\<close>

fun weeks_loop :: "sim_clock \<Rightarrow> travel_plan \<Rightarrow> nat \<Rightarrow> nat \<Rightarrow> rng \<Rightarrow> event list \<times> rng" where
  "weeks_loop clock travel w 0 g = ([], g)"
| "weeks_loop clock travel w (Suc n) g =
     (case week_events clock travel w g of (evs, g1) \<Rightarrow>
      case weeks_loop clock travel (Suc w) n g1 of (rest, g2) \<Rightarrow> (evs @ rest, g2))"

text \<open>
  \<^verbatim>\<open>build_events\<close>: the events of weeks 1 to \<^verbatim>\<open>total_weeks\<close>, then
  \<^verbatim>\<open>events.sort(key=lambda e: e.when)\<close>, a stable sort.
\<close>

definition build_events :: "sim_clock \<Rightarrow> travel_plan \<Rightarrow> nat \<Rightarrow> rng \<Rightarrow> event list \<times> rng" where
  "build_events clock travel total_weeks g =
     (case weeks_loop clock travel 1 total_weeks g of (events, g') \<Rightarrow>
        (sort_key (\<lambda>e. when e) events, g'))"

section \<open>The diagnostics cadence of the validator (validators.py)\<close>

text \<open>
  \<^verbatim>\<open>_diagnostic_weeks\<close>: \<^verbatim>\<open>w = 4; while w <= total_weeks: weeks.append(w); w += 12\<close>.
\<close>

function diagnostic_weeks_from :: "nat \<Rightarrow> nat \<Rightarrow> nat list" where
  "diagnostic_weeks_from w total_weeks =
     (if w \<le> total_weeks then w # diagnostic_weeks_from (w + 12) total_weeks else [])"
  by pat_completeness auto
termination
  by (relation "measure (\<lambda>(w, total_weeks). Suc total_weeks - w)") auto

definition validator_diagnostic_weeks :: "nat \<Rightarrow> nat list" where
  "validator_diagnostic_weeks total_weeks = diagnostic_weeks_from 4 total_weeks"

definition expected_diagnostics_count :: "nat \<Rightarrow> nat" where
  "expected_diagnostics_count total_weeks = length (validator_diagnostic_weeks total_weeks)"

section \<open>Text cleanup (content/generator.py, content/templates.py)\<close>

text \<open>
  A Python string is modelled as a list of characters. The model is exact on ASCII text:
  the whitespace of \<^verbatim>\<open>\s\<close> and \<^verbatim>\<open>str.strip\<close>, the line breaks of
  \<^verbatim>\<open>str.splitlines\<close> and the letters of \<^verbatim>\<open>[a-z]\<close> and \<^verbatim>\<open>\b\<close> are the ASCII ones.
  Each \<^verbatim>\<open>re.sub\<close> is a function that scans from the left and replaces the
  non-overlapping matches, as \<^verbatim>\<open>re.sub\<close> does.
\<close>

definition is_space :: "char \<Rightarrow> bool" where
  "is_space c \<longleftrightarrow>
     c \<in> set [CHR 0x09, CHR 0x0A, CHR 0x0B, CHR 0x0C, CHR 0x0D,
               CHR 0x1C, CHR 0x1D, CHR 0x1E, CHR 0x1F, CHR 0x20]"

definition is_linebreak :: "char \<Rightarrow> bool" where
  "is_linebreak c \<longleftrightarrow>
     c \<in> set [CHR 0x0A, CHR 0x0B, CHR 0x0C, CHR 0x0D, CHR 0x1C, CHR 0x1D, CHR 0x1E]"

definition lower_char :: "char \<Rightarrow> char" where
  "lower_char c =
     (case map_of (zip ''ABCDEFGHIJKLMNOPQRSTUVWXYZ'' ''abcdefghijklmnopqrstuvwxyz'') c of
        Some d \<Rightarrow> d | None \<Rightarrow> c)"

definition upper_char :: "char \<Rightarrow> char" where
  "upper_char c =
     (case map_of (zip ''abcdefghijklmnopqrstuvwxyz'' ''ABCDEFGHIJKLMNOPQRSTUVWXYZ'') c of
        Some d \<Rightarrow> d | None \<Rightarrow> c)"

definition is_lower :: "char \<Rightarrow> bool" where
  "is_lower c \<longleftrightarrow> c \<in> set ''abcdefghijklmnopqrstuvwxyz''"

definition is_word_char :: "char \<Rightarrow> bool" where
  "is_word_char c \<longleftrightarrow>
     c \<in> set ''abcdefghijklmnopqrstuvwxyzABCDEFGHIJKLMNOPQRSTUVWXYZ0123456789_''"

text \<open>\<^verbatim>\<open>s.strip()\<close>.\<close>

definition strip :: "string \<Rightarrow> string" where
  "strip s = rev (dropWhile is_space (rev (dropWhile is_space s)))"

text \<open>\<^verbatim>\<open>re.sub(r"\?\.", "?", s)\<close> and \<^verbatim>\<open>re.sub(r"\!\.", "!", s)\<close>, for the mark m.\<close>

fun sub_mark_dot :: "char \<Rightarrow> string \<Rightarrow> string" where
  "sub_mark_dot m [] = []"
| "sub_mark_dot m [c] = [c]"
| "sub_mark_dot m (c # d # rest) =
     (if c = m \<and> d = CHR ''.'' then m # sub_mark_dot m rest
      else c # sub_mark_dot m (d # rest))"

text \<open>\<^verbatim>\<open>re.sub(r"\.{2,}", ".", s)\<close>.\<close>

function collapse_dots :: "string \<Rightarrow> string" where
  "collapse_dots [] = []"
| "collapse_dots (c # rest) =
     (if c = CHR ''.'' \<and> rest \<noteq> [] \<and> hd rest = CHR ''.''
      then CHR ''.'' # collapse_dots (dropWhile (\<lambda>x. x = CHR ''.'') rest)
      else c # collapse_dots rest)"
  by pat_completeness auto
termination
  by (relation "measure length") (auto intro: le_imp_less_Suc length_dropWhile_le)

text \<open>\<^verbatim>\<open>re.sub(r"\s{2,}", " ", s)\<close>.\<close>

function collapse_spaces :: "string \<Rightarrow> string" where
  "collapse_spaces [] = []"
| "collapse_spaces (c # rest) =
     (if is_space c \<and> rest \<noteq> [] \<and> is_space (hd rest)
      then CHR '' '' # collapse_spaces (dropWhile is_space rest)
      else c # collapse_spaces rest)"
  by pat_completeness auto
termination
  by (relation "measure length") (auto intro: le_imp_less_Suc length_dropWhile_le)

text \<open>
  \<^verbatim>\<open>re.sub(r"(?m)[:;]\s*$", ".", s)\<close>. In multi-line mode \<^verbatim>\<open>$\<close> matches at the end of
  the string and before a newline; \<^verbatim>\<open>\s*\<close> is greedy and gives whitespace back until
  \<^verbatim>\<open>$\<close> matches: \<open>greedy_eol k r\<close> is the longest match of \<^verbatim>\<open>\s*$\<close> at the start of r
  among the first k characters.
\<close>

definition at_eol :: "string \<Rightarrow> bool" where
  "at_eol r \<longleftrightarrow> r = [] \<or> hd r = CHR 0x0A"

fun greedy_eol :: "nat \<Rightarrow> string \<Rightarrow> nat option" where
  "greedy_eol 0 r = (if at_eol r then Some 0 else None)"
| "greedy_eol (Suc k) r = (if at_eol (drop (Suc k) r) then Some (Suc k) else greedy_eol k r)"

function sub_trailing_colon :: "string \<Rightarrow> string" where
  "sub_trailing_colon [] = []"
| "sub_trailing_colon (c # rest) =
     (if c = CHR '':'' \<or> c = CHR '';''
      then (case greedy_eol (length (takeWhile is_space rest)) rest of
              Some k \<Rightarrow> CHR ''.'' # sub_trailing_colon (drop k rest)
            | None \<Rightarrow> c # sub_trailing_colon rest)
      else c # sub_trailing_colon rest)"
  by pat_completeness auto
termination
  by (relation "measure length") auto

text \<open>\<^verbatim>\<open>re.sub(r"(?i)put attention on\b", "focus on", s)\<close>.\<close>

fun starts_with_ci :: "string \<Rightarrow> string \<Rightarrow> bool" where
  "starts_with_ci [] s = True"
| "starts_with_ci (p # ps) [] = False"
| "starts_with_ci (p # ps) (c # cs) = (lower_char c = p \<and> starts_with_ci ps cs)"

function sub_put_attention :: "string \<Rightarrow> string" where
  "sub_put_attention [] = []"
| "sub_put_attention (c # rest) =
     (if starts_with_ci ''put attention on'' (c # rest)
         \<and> (drop 15 rest = [] \<or> \<not> is_word_char (hd (drop 15 rest)))
      then ''focus on'' @ sub_put_attention (drop 15 rest)
      else c # sub_put_attention rest)"
  by pat_completeness auto
termination
  by (relation "measure length") auto

text \<open>\<^verbatim>\<open>_cap\<close>: \<^verbatim>\<open>re.match(r"^(\s*)([a-z])", line)\<close>, the letter in upper case.\<close>

definition cap_line :: "string \<Rightarrow> string" where
  "cap_line line =
     (case dropWhile is_space line of
        [] \<Rightarrow> line
      | ch # rest \<Rightarrow> if is_lower ch then takeWhile is_space line @ upper_char ch # rest else line)"

text \<open>\<^verbatim>\<open>s.splitlines()\<close>, with the line read so far as an accumulator.\<close>

fun splitlines_from :: "string \<Rightarrow> string \<Rightarrow> string list" where
  "splitlines_from cur [] = (if cur = [] then [] else [cur])"
| "splitlines_from cur (c # rest) =
     (if c = CHR 0x0D \<and> rest \<noteq> [] \<and> hd rest = CHR 0x0A then cur # splitlines_from [] (tl rest)
      else if is_linebreak c then cur # splitlines_from [] rest
      else splitlines_from (cur @ [c]) rest)"

definition splitlines :: "string \<Rightarrow> string list" where
  "splitlines s = splitlines_from [] s"

text \<open>\<^verbatim>\<open>"\n".join(lines)\<close>.\<close>

fun join_lines :: "string list \<Rightarrow> string" where
  "join_lines [] = []"
| "join_lines [l] = l"
| "join_lines (l # ls) = l @ CHR 0x0A # join_lines ls"

text \<open>\<^verbatim>\<open>ContentEngine._tidy\<close>, the last pass over every message body.\<close>

definition tidy :: "string \<Rightarrow> string" where
  "tidy s =
     (if s = [] then s
      else let txt = strip s;
               txt = sub_mark_dot CHR ''?'' txt;
               txt = sub_mark_dot CHR ''!'' txt;
               txt = collapse_dots txt;
               txt = collapse_spaces txt;
               txt = sub_trailing_colon txt;
               txt = sub_put_attention txt;
               lines = map cap_line (splitlines txt)
           in strip (join_lines lines))"

text \<open>\<^verbatim>\<open>re.sub(r"\s+([,.;!?])", r"\1", t)\<close>.\<close>

definition is_punct :: "char \<Rightarrow> bool" where
  "is_punct c \<longleftrightarrow> c \<in> set '',.;!?''"

function sub_space_before_punct :: "string \<Rightarrow> string" where
  "sub_space_before_punct [] = []"
| "sub_space_before_punct (c # rest) =
     (if is_space c \<and> dropWhile is_space rest \<noteq> [] \<and> is_punct (hd (dropWhile is_space rest))
      then hd (dropWhile is_space rest) # sub_space_before_punct (tl (dropWhile is_space rest))
      else c # sub_space_before_punct rest)"
  by pat_completeness auto
termination
proof (relation "measure length")
  fix c :: char and rest :: string
  assume "is_space c \<and> dropWhile is_space rest \<noteq> [] \<and> is_punct (hd (dropWhile is_space rest))"
  have "length (tl (dropWhile is_space rest)) \<le> length (dropWhile is_space rest)"
    by simp
  also have "\<dots> \<le> length rest"
    by (rule length_dropWhile_le)
  finally show "(tl (dropWhile is_space rest), c # rest) \<in> measure length"
    by simp
qed auto

text \<open>\<^verbatim>\<open>re.sub(r"([,;])([^\s])", r"\1 \2", t)\<close>.\<close>

fun sub_space_after_comma :: "string \<Rightarrow> string" where
  "sub_space_after_comma [] = []"
| "sub_space_after_comma [c] = [c]"
| "sub_space_after_comma (c # d # rest) =
     (if (c = CHR '','' \<or> c = CHR '';'') \<and> \<not> is_space d
      then c # CHR '' '' # d # sub_space_after_comma rest
      else c # sub_space_after_comma (d # rest))"

text \<open>\<^verbatim>\<open>templates._tidy_text\<close>, the cleanup at the end of every template.\<close>

definition tidy_text :: "string \<Rightarrow> string" where
  "tidy_text s =
     (if s = [] then s
      else let t = strip s;
               t = sub_mark_dot CHR ''?'' t;
               t = sub_mark_dot CHR ''!'' t;
               t = collapse_dots t;
               t = collapse_spaces t;
               t = sub_space_before_punct t;
               t = sub_space_after_comma t;
               t = sub_trailing_colon t;
               lines = map (\<lambda>l. cap_line (strip l)) (filter (\<lambda>l. strip l \<noteq> []) (splitlines t))
           in strip (join_lines lines))"

section \<open>The text-enhancement delegate (nlg.py)\<close>

record nlg_config =
  provider :: string
  mode :: string
  model :: string
  host :: string
  timeout_sec :: nat
  temperature :: real
  top_p :: real
  num_predict :: nat
  enable_cache :: bool

type_synonym facts = "string \<rightharpoonup> string"

text \<open>
  The cache key is the SHA-256 digest of mode, model, role, event, header, draft body and
  facts; the seven parts stand for their digest.
\<close>

type_synonym cache_key = "string \<times> string \<times> string \<times> string \<times> string \<times> string \<times> facts"

record nlg_engine =
  cfg :: nlg_config
  cache :: "cache_key \<rightharpoonup> string"








section \<open>Messages and the content engine (content/generator.py)\<close>

record message =
  timestamp :: datetime
  sender :: string
  "text" :: string
  attachments :: "string list option"
  initiated_by_member :: bool
  msg_meta :: "string \<rightharpoonup> string"

definition Message :: "datetime \<Rightarrow> string \<Rightarrow> string \<Rightarrow> bool \<Rightarrow> string \<Rightarrow> message" where
  "Message ts who body by_member k =
     \<lparr>timestamp = ts, sender = who, text = body, attachments = None,
      initiated_by_member = by_member, msg_meta = [''kind'' \<mapsto> k]\<rparr>"

record generation_context =
  last_week_win :: bool
  cumulative_plan_hours :: real
  exercise_phase :: nat
  last_openers :: "string \<rightharpoonup> string"

text \<open>
  The engine: the catalog, the generation context and the map \<^verbatim>\<open>_recent\<close> from
  (sender, kind) to the timestamp of the last emitted message.
\<close>

record content_engine =
  interventions :: "intervention list"
  ctx :: generation_context
  week_counter :: nat
  nlg :: "nlg_engine option"
  recent :: "(string \<times> string) \<rightharpoonup> datetime"

definition new_engine :: "nlg_engine option \<Rightarrow> content_engine" where
  "new_engine delegate =
     \<lparr>interventions = default_interventions,
      ctx = \<lparr>last_week_win = False, cumulative_plan_hours = 0.0, exercise_phase = 0,
             last_openers = Map.empty\<rparr>,
      week_counter = 0, nlg = delegate, recent = Map.empty\<rparr>"

definition VOICES :: "(string \<times> string) list" where
  "VOICES =
     [(''ruby'', ''Ruby (Elyx Concierge)''),
      (''dr_warren'', ''Dr. Warren (Elyx Medical)''),
      (''advik'', ''Advik (Elyx Performance Scientist)''),
      (''carla'', ''Carla (Elyx Nutrition)''),
      (''rachel'', ''Rachel (Elyx PT)''),
      (''neel'', ''Neel (Elyx Concierge Lead)''),
      (''pa'', ''Sarah Tan (PA)''),
      (''member'', ''Rohan'')]"

text \<open>\<^verbatim>\<open>_voice(key)\<close> on a key of \<^verbatim>\<open>VOICES\<close>; the builders pass no other key.\<close>

definition voice :: "string \<Rightarrow> string" where
  "voice key = (case map_of VOICES key of Some tag \<Rightarrow> tag | None \<Rightarrow> [])"

text \<open>
  \<^verbatim>\<open>_emit\<close>: the suppression gate. \<^verbatim>\<open>delta_h\<close> is the difference of the two
  timestamps in seconds over 3600.
\<close>

definition emit :: "message \<Rightarrow> string \<Rightarrow> real \<Rightarrow> content_engine \<Rightarrow> message list \<times> content_engine" where
  "emit msg k window_hours e =
     (let key = (sender msg, k) in
      case recent e key of
        Some prev \<Rightarrow>
          if real_of_int ((timestamp msg - prev) * 60) / 3600 < window_hours then ([], e)
          else ([msg], e\<lparr>recent := (recent e)(key \<mapsto> timestamp msg)\<rparr>)
      | None \<Rightarrow> ([msg], e\<lparr>recent := (recent e)(key \<mapsto> timestamp msg)\<rparr>))"




text \<open>
  The text of a message body is composed by the templates, the optional enhancement and
  the cleanup, which draw from the random source and read the engine and the state. The
  driver and the suppression gate never look into a body, so the composition enters the
  builders as a parameter: one composer per builder, each returning the body the builder
  passes to \<^verbatim>\<open>Message\<close> and the random source after its draws, and the function
  \<^verbatim>\<open>_extract_opener\<close>.
\<close>

record text_layer =
  weekly_report_body :: "content_engine \<Rightarrow> biomarker_state \<Rightarrow> rng \<Rightarrow> (string \<times> real) \<times> rng"
  exercise_update_body :: "content_engine \<Rightarrow> biomarker_state \<Rightarrow> bool \<Rightarrow> rng \<Rightarrow> string \<times> rng"
  medical_checkin_body :: "content_engine \<Rightarrow> biomarker_state \<Rightarrow> rng \<Rightarrow> string \<times> rng"
  nutrition_update_body :: "content_engine \<Rightarrow> bool \<Rightarrow> rng \<Rightarrow> string \<times> rng"
  travel_adaptation_body :: "content_engine \<Rightarrow> string \<Rightarrow> rng \<Rightarrow> string \<times> rng"
  diagnostics_schedule_body :: "content_engine \<Rightarrow> rng \<Rightarrow> string \<times> rng"
  diagnostics_results_body :: "content_engine \<Rightarrow> biomarker_state \<Rightarrow> rng \<Rightarrow> string \<times> rng"
  wearable_anomaly_body :: "content_engine \<Rightarrow> biomarker_state \<Rightarrow> bool \<Rightarrow> rng \<Rightarrow> string \<times> rng"
  member_curiosity_body :: "rng \<Rightarrow> string \<times> rng"
  extract_opener :: "string \<Rightarrow> string"

definition remember_opener :: "text_layer \<Rightarrow> string \<Rightarrow> string \<Rightarrow> content_engine \<Rightarrow> content_engine" where
  "remember_opener T role_key body e =
     (let op = extract_opener T body in
      if op \<noteq> [] then e\<lparr>ctx := (ctx e)\<lparr>last_openers := (last_openers (ctx e))(role_key \<mapsto> op)\<rparr>\<rparr>
      else e)"

text \<open>
  The common tail of the team builders: wrap the body, pass the gate, and remember the
  opener when the message was emitted.
\<close>

definition emit_and_remember ::
  "text_layer \<Rightarrow> datetime \<Rightarrow> string \<Rightarrow> string \<Rightarrow> string \<Rightarrow> real \<Rightarrow> content_engine \<Rightarrow>
   message list \<times> content_engine" where
  "emit_and_remember T ts role_key body k window_hours e =
     (let msg = Message ts (voice role_key) body False k in
      case emit msg k window_hours e of (emitted, e1) \<Rightarrow>
        (emitted, if emitted \<noteq> [] then remember_opener T role_key body e1 else e1))"

subsection \<open>The week lifecycle\<close>

text \<open>The loop of \<^verbatim>\<open>begin_week\<close> over the catalog.\<close>

fun adherence_loop ::
  "intervention list \<Rightarrow> bool \<Rightarrow> bool \<Rightarrow> bool \<Rightarrow> real \<Rightarrow> (string \<rightharpoonup> bool) \<Rightarrow> biomarker_state \<Rightarrow> rng \<Rightarrow>
   (string \<rightharpoonup> bool) \<times> biomarker_state \<times> rng" where
  "adherence_loop [] travel busy win weekly_hours amap s g = (amap, s, g)"
| "adherence_loop (iv # ivs) travel busy win weekly_hours amap s g =
     (let p = weekly_adherence_probability (base_adherence iv) travel True busy win weekly_hours in
      case bernoulli p g of (did, g1) \<Rightarrow>
        adherence_loop ivs travel busy win weekly_hours (amap(name iv \<mapsto> did))
          (apply_intervention_effects (effect_vector iv) did s) g1)"

definition begin_week ::
  "content_engine \<Rightarrow> biomarker_state \<Rightarrow> bool \<Rightarrow> bool \<Rightarrow> rng \<Rightarrow>
   (string \<rightharpoonup> bool) \<times> content_engine \<times> biomarker_state \<times> rng" where
  "begin_week e s travel busy g =
     (let weekly_hours = sum_list (map time_cost_hours (interventions e)) in
      case adherence_loop (interventions e) travel busy (last_week_win (ctx e)) weekly_hours
             Map.empty s g of (adherence_map, s1, g1) \<Rightarrow>
      let s2 = (if travel then apply_travel_penalty s1 else s1) in
      case add_noise s2 g1 of (s3, g2) \<Rightarrow>
      let s4 = weekly_bounds s3;
          win_count = (if hrv_ms s4 > 40.0 then 1 else 0) + (if apob s4 < 105.0 then 1 else 0)
                      + (if systolic_bp s4 < 134.0 then (1::nat) else 0)
      in (adherence_map, e\<lparr>ctx := (ctx e)\<lparr>last_week_win := (win_count \<ge> 2)\<rparr>\<rparr>, s4, g2))"

subsection \<open>The message builders\<close>

definition weekly_report ::
  "text_layer \<Rightarrow> datetime \<Rightarrow> biomarker_state \<Rightarrow> content_engine \<Rightarrow> rng \<Rightarrow>
   message list \<times> content_engine \<times> biomarker_state \<times> rng" where
  "weekly_report T ts s e g =
     (case weekly_report_body T e s g of ((body, hours_done), g1) \<Rightarrow>
      case emit_and_remember T ts ''ruby'' body ''weekly_report'' 4.0 e of (emitted, e1) \<Rightarrow>
        (emitted, e1, s\<lparr>weekly_hours_completed := hours_done\<rparr>, g1))"

definition exercise_update ::
  "text_layer \<Rightarrow> datetime \<Rightarrow> biomarker_state \<Rightarrow> content_engine \<Rightarrow> rng \<Rightarrow>
   message list \<times> content_engine \<times> rng" where
  "exercise_update T ts s e g =
     (let e0 = e\<lparr>ctx := (ctx e)\<lparr>exercise_phase := exercise_phase (ctx e) + 1\<rparr>\<rparr> in
      case random_unit g of (u, g1) \<Rightarrow>
      let change = (u < 0.5) in
      case exercise_update_body T e0 s change g1 of (body, g2) \<Rightarrow>
      case emit_and_remember T ts ''rachel'' body ''exercise_update'' 10.0 e0 of (emitted, e1) \<Rightarrow>
        (if change then map (\<lambda>m. m\<lparr>msg_meta := (msg_meta m)(''plan_change'' \<mapsto> ''True'')\<rparr>) emitted
         else emitted, e1, g2))"

definition medical_checkin ::
  "text_layer \<Rightarrow> datetime \<Rightarrow> biomarker_state \<Rightarrow> content_engine \<Rightarrow> rng \<Rightarrow>
   message list \<times> content_engine \<times> rng" where
  "medical_checkin T ts s e g =
     (case medical_checkin_body T e s g of (body, g1) \<Rightarrow>
      case emit_and_remember T ts ''dr_warren'' body ''medical_checkin'' 8.0 e of (emitted, e1) \<Rightarrow>
        (emitted, e1, g1))"

definition nutrition_update ::
  "text_layer \<Rightarrow> datetime \<Rightarrow> bool \<Rightarrow> content_engine \<Rightarrow> rng \<Rightarrow>
   message list \<times> content_engine \<times> rng" where
  "nutrition_update T ts traveling e g =
     (case nutrition_update_body T e traveling g of (body, g1) \<Rightarrow>
      case emit_and_remember T ts ''carla'' body ''nutrition_update'' 12.0 e of (emitted, e1) \<Rightarrow>
        (emitted, e1, g1))"

definition travel_adaptation ::
  "text_layer \<Rightarrow> datetime \<Rightarrow> string \<Rightarrow> content_engine \<Rightarrow> rng \<Rightarrow>
   message list \<times> content_engine \<times> rng" where
  "travel_adaptation T ts dest e g =
     (case travel_adaptation_body T e dest g of (body, g1) \<Rightarrow>
      case emit_and_remember T ts ''ruby'' body ''travel_adaptation'' 10.0 e of (emitted, e1) \<Rightarrow>
        (emitted, e1, g1))"

definition diagnostics_schedule ::
  "text_layer \<Rightarrow> datetime \<Rightarrow> content_engine \<Rightarrow> rng \<Rightarrow> message list \<times> content_engine \<times> rng" where
  "diagnostics_schedule T ts e g =
     (case diagnostics_schedule_body T e g of (body, g1) \<Rightarrow>
      case emit_and_remember T ts ''ruby'' body ''diagnostics_schedule'' 24.0 e of (emitted, e1) \<Rightarrow>
        (emitted, e1, g1))"

definition diagnostics_results ::
  "text_layer \<Rightarrow> datetime \<Rightarrow> biomarker_state \<Rightarrow> content_engine \<Rightarrow> rng \<Rightarrow>
   message list \<times> content_engine \<times> rng" where
  "diagnostics_results T ts s e g =
     (case diagnostics_results_body T e s g of (body, g1) \<Rightarrow>
      case emit_and_remember T ts ''dr_warren'' body ''diagnostics_results'' 24.0 e of (emitted, e1) \<Rightarrow>
        (emitted, e1, g1))"

definition wearable_anomaly ::
  "text_layer \<Rightarrow> datetime \<Rightarrow> biomarker_state \<Rightarrow> bool \<Rightarrow> content_engine \<Rightarrow> rng \<Rightarrow>
   message list \<times> content_engine \<times> rng" where
  "wearable_anomaly T ts s travel e g =
     (case wearable_anomaly_body T e s travel g of (body, g1) \<Rightarrow>
      case emit_and_remember T ts ''advik'' body ''wearable_anomaly'' 10.0 e of (emitted, e1) \<Rightarrow>
        (emitted, e1, g1))"

definition member_curiosity ::
  "text_layer \<Rightarrow> datetime \<Rightarrow> content_engine \<Rightarrow> rng \<Rightarrow> message list \<times> content_engine \<times> rng" where
  "member_curiosity T ts e g =
     (case member_curiosity_body T g of (body, g1) \<Rightarrow>
      let msg = Message ts (voice ''member'') body True ''member_curiosity'' in
      case emit msg ''member_curiosity'' 4.0 e of (emitted, e1) \<Rightarrow> (emitted, e1, g1))"

definition pa_options :: "string list" where
  "pa_options =
     [''Calendar invites sent; lab location shared.'',
      ''Diagnostics confirmed; QR code is in your email.'',
      ''Travel holds added; workout times adjusted in your calendar.'',
      ''Reminder set and shared with Sarah.'',
      ''All set on my side. Shout if you need anything changed.'']"

definition pa_scheduling_ack ::
  "datetime \<Rightarrow> content_engine \<Rightarrow> rng \<Rightarrow> message list \<times> content_engine \<times> rng" where
  "pa_scheduling_ack ts e g =
     (case choice pa_options g of (body, g1) \<Rightarrow>
      let msg = Message ts (voice ''pa'') body False ''pa_ack'' in
      case emit msg ''pa_ack'' 8.0 e of (emitted, e1) \<Rightarrow> (emitted, e1, g1))"

definition minutes_apart :: "datetime \<Rightarrow> int \<Rightarrow> datetime" where
  "minutes_apart ts minutes = ts + minutes"

section \<open>The driver loop (run.py)\<close>

text \<open>
  The state of the loop of \<^verbatim>\<open>main\<close>: the engine, the biomarker state, the random
  source, the messages so far and \<^verbatim>\<open>current_week\<close>. The field \<open>begin_week_calls\<close>
  is bookkeeping of the model only: it lists, in call order, the week of the event at
  which \<^verbatim>\<open>engine.begin_week\<close> was called.
\<close>

record run_state =
  engine :: content_engine
  state :: biomarker_state
  gen :: rng
  messages :: "message list"
  current_week :: nat
  begin_week_calls :: "nat list"

definition in_monday_window :: "sim_clock \<Rightarrow> event \<Rightarrow> bool" where
  "in_monday_window clock ev \<longleftrightarrow>
     weekday clock (when ev) = 0 \<and> 8 \<le> dt_hour (when ev) \<and> dt_hour (when ev) \<le> 12"

text \<open>The \<^verbatim>\<open>if\<close>/\<^verbatim>\<open>elif\<close> chain that routes an event to its builders.\<close>

definition route_event :: "text_layer \<Rightarrow> bool \<Rightarrow> event \<Rightarrow> run_state \<Rightarrow> run_state" where
  "route_event T traveling ev rs =
     (if kind ev = ''weekly_report'' then
        (case weekly_report T (when ev) (state rs) (engine rs) (gen rs) of (ms, e1, s1, g1) \<Rightarrow>
           rs\<lparr>engine := e1, state := s1, gen := g1, messages := messages rs @ ms\<rparr>)
      else if kind ev = ''exercise_update'' then
        (case exercise_update T (when ev) (state rs) (engine rs) (gen rs) of (ms, e1, g1) \<Rightarrow>
           rs\<lparr>engine := e1, gen := g1, messages := messages rs @ ms\<rparr>)
      else if kind ev = ''medical_checkin'' then
        (case medical_checkin T (when ev) (state rs) (engine rs) (gen rs) of (ms, e1, g1) \<Rightarrow>
           rs\<lparr>engine := e1, gen := g1, messages := messages rs @ ms\<rparr>)
      else if kind ev = ''nutrition_update'' then
        (case nutrition_update T (when ev) traveling (engine rs) (gen rs) of (ms, e1, g1) \<Rightarrow>
           rs\<lparr>engine := e1, gen := g1, messages := messages rs @ ms\<rparr>)
      else if kind ev = ''travel_adaptation'' then
        (let dest = (case meta ev of None \<Rightarrow> []
                     | Some m \<Rightarrow> (case m ''dest'' of None \<Rightarrow> [] | Some d \<Rightarrow> d)) in
         case travel_adaptation T (when ev) dest (engine rs) (gen rs) of (ms, e1, g1) \<Rightarrow>
           rs\<lparr>engine := e1, gen := g1, messages := messages rs @ ms\<rparr>)
      else if kind ev = ''diagnostics_schedule'' then
        (case diagnostics_schedule T (when ev) (engine rs) (gen rs) of (ms, e1, g1) \<Rightarrow>
         case pa_scheduling_ack (minutes_apart (when ev) 20) e1 g1 of (ack, e2, g2) \<Rightarrow>
           rs\<lparr>engine := e2, gen := g2, messages := messages rs @ ms @ ack\<rparr>)
      else if kind ev = ''diagnostics_results'' then
        (case diagnostics_results T (when ev) (state rs) (engine rs) (gen rs) of (ms, e1, g1) \<Rightarrow>
           rs\<lparr>engine := e1, gen := g1, messages := messages rs @ ms\<rparr>)
      else if kind ev = ''wearable_anomaly'' then
        (case wearable_anomaly T (when ev) (state rs) traveling (engine rs) (gen rs) of (ms, e1, g1) \<Rightarrow>
           rs\<lparr>engine := e1, gen := g1, messages := messages rs @ ms\<rparr>)
      else if kind ev = ''member_curiosity'' then
        (case member_curiosity T (when ev) (engine rs) (gen rs) of (m0, e1, g1) \<Rightarrow>
         let reply_time = minutes_apart (when ev) 15 in
         case nutrition_update T reply_time traveling e1 g1 of (r1, e2, g2) \<Rightarrow>
         case medical_checkin T reply_time (state rs) e2 g2 of (r2, e3, g3) \<Rightarrow>
         case wearable_anomaly T reply_time (state rs) traveling e3 g3 of (r3, e4, g4) \<Rightarrow>
         case choice [r1, r2, r3] g4 of (reply, g5) \<Rightarrow>
           rs\<lparr>engine := e4, gen := g5, messages := messages rs @ m0 @ reply\<rparr>)
      else rs)"

text \<open>
  One iteration of \<^verbatim>\<open>for ev in events\<close>. The three elements of the list handed to
  \<^verbatim>\<open>random.choice\<close> in the member-curiosity branch are calls, which Python evaluates
  from left to right before \<^verbatim>\<open>random.choice\<close> runs.
\<close>

definition driver_step :: "sim_clock \<Rightarrow> travel_plan \<Rightarrow> text_layer \<Rightarrow> run_state \<Rightarrow> event \<Rightarrow> run_state" where
  "driver_step clock tp T rs ev =
     (let rs0 = (if week ev \<noteq> current_week rs then rs\<lparr>current_week := week ev\<rparr> else rs);
          traveling = (destination_for_week tp (week ev) \<noteq> None);
          busy = (week ev mod 6 = 0);
          rs1 = (if in_monday_window clock ev
                 then (case begin_week (engine rs0) (state rs0) traveling busy (gen rs0) of
                         (adherence_map, e1, s1, g1) \<Rightarrow>
                           rs0\<lparr>engine := e1, state := s1, gen := g1,
                               begin_week_calls := begin_week_calls rs0 @ [week ev]\<rparr>)
                 else rs0)
      in route_event T traveling ev rs1)"

definition run_events :: "sim_clock \<Rightarrow> travel_plan \<Rightarrow> text_layer \<Rightarrow> event list \<Rightarrow> run_state \<Rightarrow> run_state" where
  "run_events clock tp T events rs = foldl (driver_step clock tp T) rs events"

definition initial_run :: "nlg_engine option \<Rightarrow> rng \<Rightarrow> run_state" where
  "initial_run delegate g =
     \<lparr>engine = new_engine delegate, state = initial_state, gen = g, messages = [],
      current_week = 1, begin_week_calls = []\<rparr>"

text \<open>\<^verbatim>\<open>main\<close> up to the validation: the travel plan, the events, the loop.\<close>

definition main :: "sim_clock \<Rightarrow> text_layer \<Rightarrow> nlg_engine option \<Rightarrow> nat \<Rightarrow> rng \<Rightarrow> run_state" where
  "main clock T delegate weeks g =
     (let tp = build_travel_plan weeks in
      case build_events clock tp weeks g of (events, g1) \<Rightarrow>
        run_events clock tp T events (initial_run delegate g1))"

text \<open>A text layer with fixed bodies and no draws, for the examples below.\<close>

definition sample_texts :: text_layer where
  "sample_texts =
     \<lparr>weekly_report_body = (\<lambda>e s g. ((''Report.'', 5), g)),
      exercise_update_body = (\<lambda>e s change g. (''Exercise.'', g)),
      medical_checkin_body = (\<lambda>e s g. (''Check-in.'', g)),
      nutrition_update_body = (\<lambda>e traveling g. (''Nutrition.'', g)),
      travel_adaptation_body = (\<lambda>e dest g. (''Travel.'', g)),
      diagnostics_schedule_body = (\<lambda>e g. (''Panel.'', g)),
      diagnostics_results_body = (\<lambda>e s g. (''Results.'', g)),
      wearable_anomaly_body = (\<lambda>e s travel g. (''Wearable.'', g)),
      member_curiosity_body = (\<lambda>g. (''Quick take?'', g)),
      extract_opener = (\<lambda>body. body)\<rparr>"


text \<open>
  A draw stream for a one-week run: the weekly report on Monday at 20:00, three member
  questions on Tuesday at 08:00, 13:00 and 16:30 and no wearable event; then the three
  draws of the driver, one for each choice of a reply, the last of which picks the
  second reply.
\<close>

definition sample_draws :: rng where
  "sample_draws n =
     (if n < 16
      then [12 / 13, 0, 0, 1 / 7, 0, 0, 1 / 7, 5 / 13, 0, 1 / 7, 8 / 13, 1 / 2, 1 / 2, 0, 0, 1 / 3] ! n
      else 0)"

definition sample_clock :: sim_clock where
  "sample_clock = \<lparr>start_weekday = 0\<rparr>"

text \<open>The state of that run when the driver reaches the third member question.\<close>

definition before_third_question :: run_state where
  "before_third_question =
     (case build_events sample_clock (build_travel_plan 1) 1 sample_draws of (events, g1) \<Rightarrow>
        run_events sample_clock (build_travel_plan 1) sample_texts (take 3 events)
          (initial_run None g1))"

section \<open>Properties\<close>

subsection \<open>Adherence probability\<close>

text \<open>The rounding error of the double arithmetic.\<close>

lemma mantissa_scale_spec:
  "0 < x \<Longrightarrow> 0 < s \<Longrightarrow> mantissa_scale x s = (m, t) \<Longrightarrow>
   1 \<le> m \<and> m < 2 \<and> 0 < t \<and> m * t = x * s"
proof (induction x s rule: mantissa_scale.induct)
  case (1 x scale)
  show ?case
  proof (cases "2 \<le> x")
    case True
    with 1 show ?thesis
      by (subst (asm) (3) mantissa_scale.simps) (simp split: if_splits)
  next
    case False
    show ?thesis
    proof (cases "x < 1")
      case True
      with False 1 show ?thesis
        by (subst (asm) (3) mantissa_scale.simps) (simp split: if_splits)
    next
      case ge: False
      with False 1 show ?thesis
        by (subst (asm) (3) mantissa_scale.simps) (simp split: if_splits)
    qed
  qed
qed

lemma round_half_even_error: "\<bar>of_int (round_half_even y) - y\<bar> \<le> 1 / 2"
proof -
  have "of_int \<lfloor>y\<rfloor> \<le> y" "y < of_int \<lfloor>y\<rfloor> + 1"
    by linarith+
  then show ?thesis
    by (auto simp: round_half_even_def Let_def)
qed

lemma round_to_double_error: "\<bar>round_to_double x - x\<bar> \<le> \<bar>x\<bar> / 2 ^ 53"
proof (cases "x = 0")
  case True
  then show ?thesis
    by (simp add: round_to_double_def)
next
  case False
  obtain m t where mt: "mantissa_scale \<bar>x\<bar> 1 = (m, t)"
    by (cases "mantissa_scale \<bar>x\<bar> 1")
  from False have "0 < \<bar>x\<bar>"
    by simp
  from mantissa_scale_spec [OF this _ mt]
  have m: "1 \<le> m" "m < 2" and t: "0 < t" and x: "m * t = \<bar>x\<bar>"
    by simp_all
  let ?r = "real_of_int (round_half_even (m * 2 ^ 52))"
  have d: "round_to_double x = sgn x * (?r / 2 ^ 52) * t"
    using False by (simp add: round_to_double_def mt)
  have xs: "x = sgn x * (m * t)"
    unfolding x by (simp add: sgn_real_def)
  have "round_to_double x - x = sgn x * ((?r / 2 ^ 52 - m) * t)"
    unfolding d by (subst (2) xs) (simp add: algebra_simps)
  then have "\<bar>round_to_double x - x\<bar> = \<bar>?r / 2 ^ 52 - m\<bar> * t"
    using False t by (simp add: abs_mult sgn_real_def)
  also have "\<bar>?r / 2 ^ 52 - m\<bar> = \<bar>?r - m * 2 ^ 52\<bar> / 2 ^ 52"
    by (simp add: field_simps)
  also have "\<dots> \<le> (1 / 2) / 2 ^ 52"
    using round_half_even_error [of "m * 2 ^ 52"] by (simp add: divide_right_mono)
  finally have "\<bar>round_to_double x - x\<bar> \<le> (1 / 2) / 2 ^ 52 * t"
    using t by (simp add: mult_right_mono)
  also have "\<dots> = t / 2 ^ 53"
    by simp
  also have "\<dots> \<le> (m * t) / 2 ^ 53"
    using m t by (simp add: divide_right_mono)
  finally show ?thesis
    unfolding x .
qed

lemma literal_error:
  assumes "0 \<le> c" and "c \<le> 1"
  shows "\<bar>round_to_double c - c\<bar> \<le> 1 / 2 ^ 53"
proof -
  have "\<bar>c\<bar> / 2 ^ 53 \<le> 1 / 2 ^ 53"
    using assms by (simp add: divide_right_mono)
  with round_to_double_error [of c] show ?thesis
    by linarith
qed

lemma abs_diff_sub:
  "\<bar>a - b\<bar> \<le> e \<Longrightarrow> \<bar>c - d\<bar> \<le> u \<Longrightarrow> \<bar>(a - c) - (b - d)\<bar> \<le> e + (u :: real)"
  by linarith

lemma abs_diff_add:
  "\<bar>a - b\<bar> \<le> e \<Longrightarrow> \<bar>c - d\<bar> \<le> u \<Longrightarrow> \<bar>(a + c) - (b + d)\<bar> \<le> e + (u :: real)"
  by linarith

lemma abs_chain:
  "\<bar>r - y\<bar> \<le> v \<Longrightarrow> \<bar>y - z\<bar> \<le> w \<Longrightarrow> \<bar>r - z\<bar> \<le> w + (v :: real)"
  by linarith

lemma abs_bound:
  "\<bar>y - z\<bar> \<le> w \<Longrightarrow> \<bar>z\<bar> \<le> b \<Longrightarrow> \<bar>y\<bar> \<le> b + (w :: real)"
  by linarith

lemma rounded_step:
  assumes y: "\<bar>y - z\<bar> \<le> e + 1 / 2 ^ 53" and e: "e \<le> 1" and z: "\<bar>z\<bar> \<le> 3"
  shows "\<bar>round_to_double y - z\<bar> \<le> e + 1 / 2 ^ 50"
proof -
  have "\<bar>y\<bar> \<le> 3 + (e + 1 / 2 ^ 53)"
    using y z by (rule abs_bound)
  also have "\<dots> \<le> 5"
    using e by simp
  finally have "\<bar>y\<bar> / 2 ^ 53 \<le> 5 / 2 ^ 53"
    by (simp add: divide_right_mono)
  with round_to_double_error [of y] have "\<bar>round_to_double y - y\<bar> \<le> 5 / 2 ^ 53"
    by (rule order_trans)
  from this y have "\<bar>round_to_double y - z\<bar> \<le> (e + 1 / 2 ^ 53) + 5 / 2 ^ 53"
    by (rule abs_chain)
  also have "\<dots> \<le> e + 1 / 2 ^ 50"
    by simp
  finally show ?thesis .
qed

lemma cond_fsub:
  assumes p: "\<bar>p - q\<bar> \<le> e" and e: "e \<le> 1" and q: "\<bar>q\<bar> \<le> 2"
    and c: "0 \<le> c" "c \<le> 1"
  shows "\<bar>(if b then fsub p (round_to_double c) else p) - (q - (if b then c else 0))\<bar>
     \<le> e + 1 / 2 ^ 50"
proof (cases b)
  case True
  have "\<bar>(p - round_to_double c) - (q - c)\<bar> \<le> e + 1 / 2 ^ 53"
    using p literal_error [OF c] by (rule abs_diff_sub)
  moreover have "\<bar>q - c\<bar> \<le> 3"
    using q c by (simp add: abs_le_iff)
  ultimately have "\<bar>round_to_double (p - round_to_double c) - (q - c)\<bar> \<le> e + 1 / 2 ^ 50"
    using e by (intro rounded_step)
  with True show ?thesis
    by (simp add: fsub_def)
next
  case False
  have "e \<le> e + 1 / 2 ^ 50"
    by simp
  with p False show ?thesis
    by simp
qed

lemma cond_fadd:
  assumes p: "\<bar>p - q\<bar> \<le> e" and e: "e \<le> 1" and q: "\<bar>q\<bar> \<le> 2"
    and c: "0 \<le> c" "c \<le> 1"
  shows "\<bar>(if b then fadd p (round_to_double c) else p) - (q + (if b then c else 0))\<bar>
     \<le> e + 1 / 2 ^ 50"
proof (cases b)
  case True
  have "\<bar>(p + round_to_double c) - (q + c)\<bar> \<le> e + 1 / 2 ^ 53"
    using p literal_error [OF c] by (rule abs_diff_add)
  moreover have "\<bar>q + c\<bar> \<le> 3"
    using q c by (simp add: abs_le_iff)
  ultimately have "\<bar>round_to_double (p + round_to_double c) - (q + c)\<bar> \<le> e + 1 / 2 ^ 50"
    using e by (intro rounded_step)
  with True show ?thesis
    by (simp add: fadd_def)
next
  case False
  have "e \<le> e + 1 / 2 ^ 50"
    by simp
  with p False show ?thesis
    by simp
qed

lemma clamp_error:
  assumes "\<bar>a - a'\<bar> \<le> d" and "\<bar>b - b'\<bar> \<le> d" and "\<bar>p - q\<bar> \<le> d"
  shows "\<bar>max a (min b p) - max a' (min b' q)\<bar> \<le> (d :: real)"
  using assms by linarith

lemma adherence_error:
  assumes base: "0 \<le> base" "base \<le> 1"
  shows "\<bar>weekly_adherence_probability base travel pa_support busy_week win weekly_hours
      - max 0.05 (min 0.95 (base - (if travel then 0.15 else 0) - (if busy_week then 0.10 else 0)
          + (if pa_support then 0.10 else 0) + (if win then 0.05 else 0)
          - (if weekly_hours > 5.0 then 0.10 else 0)))\<bar> \<le> 5 / 2 ^ 50"
proof -
  define q1 where "q1 = base - (if travel then 0.15 else 0)"
  define q2 where "q2 = q1 - (if busy_week then 0.10 else 0)"
  define q3 where "q3 = q2 + (if pa_support then 0.10 else 0)"
  define q4 where "q4 = q3 + (if win then 0.05 else 0)"
  define q5 where "q5 = q4 - (if weekly_hours > 5.0 then 0.10 else 0)"
  define p1 where "p1 = (if travel then fsub base (round_to_double 0.15) else base)"
  define p2 where "p2 = (if busy_week then fsub p1 (round_to_double 0.10) else p1)"
  define p3 where "p3 = (if pa_support then fadd p2 (round_to_double 0.10) else p2)"
  define p4 where "p4 = (if win then fadd p3 (round_to_double 0.05) else p3)"
  define p5 where "p5 = (if weekly_hours > 5.0 then fsub p4 (round_to_double 0.10) else p4)"
  have b0: "\<bar>base\<bar> \<le> 2"
    using base by simp
  have b1: "\<bar>q1\<bar> \<le> 2"
    using base by (simp add: q1_def abs_le_iff)
  have b2: "\<bar>q2\<bar> \<le> 2"
    using base by (simp add: q1_def q2_def abs_le_iff)
  have b3: "\<bar>q3\<bar> \<le> 2"
    using base by (simp add: q1_def q2_def q3_def abs_le_iff)
  have b4: "\<bar>q4\<bar> \<le> 2"
    using base by (simp add: q1_def q2_def q3_def q4_def abs_le_iff)
  have "\<bar>base - base\<bar> \<le> 0"
    by simp
  from cond_fsub [OF this _ b0, of "0.15" travel]
  have e1: "\<bar>p1 - q1\<bar> \<le> 1 / 2 ^ 50"
    by (simp add: p1_def q1_def)
  from cond_fsub [OF e1 _ b1, of "0.10" busy_week]
  have e2: "\<bar>p2 - q2\<bar> \<le> 2 / 2 ^ 50"
    by (simp add: p2_def q2_def)
  from cond_fadd [OF e2 _ b2, of "0.10" pa_support]
  have e3: "\<bar>p3 - q3\<bar> \<le> 3 / 2 ^ 50"
    by (simp add: p3_def q3_def)
  from cond_fadd [OF e3 _ b3, of "0.05" win]
  have e4: "\<bar>p4 - q4\<bar> \<le> 4 / 2 ^ 50"
    by (simp add: p4_def q4_def)
  from cond_fsub [OF e4 _ b4, of "0.10" "weekly_hours > 5.0"]
  have e5: "\<bar>p5 - q5\<bar> \<le> 5 / 2 ^ 50"
    by (simp add: p5_def q5_def)
  have lo: "\<bar>round_to_double 0.05 - 0.05\<bar> \<le> 5 / 2 ^ 50"
    using literal_error [of "0.05"] by simp
  have hi: "\<bar>round_to_double 0.95 - 0.95\<bar> \<le> 5 / 2 ^ 50"
    using literal_error [of "0.95"] by simp
  have w: "weekly_adherence_probability base travel pa_support busy_week win weekly_hours
      = max (round_to_double 0.05) (min (round_to_double 0.95) p5)"
    by (simp only: weekly_adherence_probability_def Let_def p1_def p2_def p3_def p4_def p5_def)
  have q: "base - (if travel then 0.15 else 0) - (if busy_week then 0.10 else 0)
          + (if pa_support then 0.10 else 0) + (if win then 0.05 else 0)
          - (if weekly_hours > 5.0 then 0.10 else 0) = q5"
    by (simp only: q1_def q2_def q3_def q4_def q5_def)
  show ?thesis
    unfolding w q by (rule clamp_error [OF lo hi e5])
qed

lemmas double_eval = round_to_double_def mantissa_scale.simps round_half_even_def Let_def

lemma d015: "round_to_double 0.15 = 5404319552844595 / 36028797018963968"
  by (simp add: double_eval)

lemma d010: "round_to_double 0.10 = 3602879701896397 / 36028797018963968"
  by (simp add: double_eval)

lemma d005: "round_to_double 0.05 = 3602879701896397 / 72057594037927936"
  by (simp add: double_eval)

lemma d095: "round_to_double 0.95 = 4278419646001971 / 4503599627370496"
  by (simp add: double_eval)

lemma d045: "round_to_double 0.45 = 8106479329266893 / 18014398509481984"
  by (simp add: double_eval)

lemma sample_fsub: "fsub (1 / 2) (round_to_double 0.15) = 3152519739159347 / 9007199254740992"
  by (simp add: fsub_def d015) (simp add: double_eval)

lemma sample_fadd:
  "fadd (3152519739159347 / 9007199254740992) (round_to_double 0.10)
     = 2026619832316723 / 4503599627370496"
  by (simp add: fadd_def d010) (simp add: double_eval)

lemma sample_adherence:
  "weekly_adherence_probability (1 / 2) True True False False 4
     = 2026619832316723 / 4503599627370496"
proof -
  have h: "((4 :: real) > 5.0) = False"
    by simp
  show ?thesis
    unfolding weekly_adherence_probability_def Let_def h if_True if_False sample_fsub sample_fadd
      d005 d095
    by simp
qed

lemma clamp_literals: "round_to_double 0.05 \<le> round_to_double 0.95"
  unfolding d005 d095 by simp

text \<open>
  Claim C4 states the adherence probability as the base with five additive modifiers,
  clamped to [0.05, 0.95], and gives 0.45 for base 0.5 with travel and support only and
  4.0 weekly hours. The source computes in doubles, where 0.5 - 0.15 + 0.10 is
  0.44999999999999996 and not the double 0.45: the example of the claim fails.
\<close>

theorem weekly_adherence_probability_example:
  "weekly_adherence_probability 0.5 True True False False 4.0 \<noteq> round_to_double 0.45
   \<and> weekly_adherence_probability 0.5 True True False False 4.0 \<noteq> 0.45"
proof -
  have "weekly_adherence_probability 0.5 True True False False 4.0
      = 2026619832316723 / 4503599627370496"
    using sample_adherence by simp
  then show ?thesis
    unfolding d045 by simp
qed

text \<open>
  Claim C4, amended. The adherence probability lies between the doubles 0.05 and 0.95.
  For a base between 0 and 1 it differs by at most \<^verbatim>\<open>1e-14\<close> from the base minus 0.15
  when travelling, minus 0.10 in a busy week, plus 0.10 with assistant support, plus 0.05
  after a week with a win, minus 0.10 when the weekly hours exceed 5.0, clamped to
  [0.05, 0.95]: the difference is the rounding of the five double operations. At base 0.5
  with travel and support only and 4.0 weekly hours it is 2026619832316723 / 4503599627370496,
  that is 0.44999999999999996, one unit in the last place below the double 0.45.
\<close>

theorem weekly_adherence_probability_formula:
  "round_to_double 0.05
      \<le> weekly_adherence_probability base travel pa_support busy_week win weekly_hours
   \<and> weekly_adherence_probability base travel pa_support busy_week win weekly_hours
      \<le> round_to_double 0.95
   \<and> (0 \<le> base \<longrightarrow> base \<le> 1 \<longrightarrow>
       \<bar>weekly_adherence_probability base travel pa_support busy_week win weekly_hours
         - max 0.05 (min 0.95
             (base - (if travel then 0.15 else 0) - (if busy_week then 0.10 else 0)
              + (if pa_support then 0.10 else 0) + (if win then 0.05 else 0)
              - (if weekly_hours > 5.0 then 0.10 else 0)))\<bar> \<le> 1 / 10 ^ 14)
   \<and> weekly_adherence_probability 0.5 True True False False 4.0
      = 2026619832316723 / 4503599627370496
   \<and> round_to_double 0.45 - weekly_adherence_probability 0.5 True True False False 4.0
      = 1 / 2 ^ 54"
proof (intro conjI impI)
  show "round_to_double 0.05
      \<le> weekly_adherence_probability base travel pa_support busy_week win weekly_hours"
    by (simp only: weekly_adherence_probability_def Let_def max.cobounded1)
  show "weekly_adherence_probability base travel pa_support busy_week win weekly_hours
      \<le> round_to_double 0.95"
    using clamp_literals by (simp add: weekly_adherence_probability_def Let_def)
next
  assume "0 \<le> base" and "base \<le> 1"
  then have "\<bar>weekly_adherence_probability base travel pa_support busy_week win weekly_hours
         - max 0.05 (min 0.95
             (base - (if travel then 0.15 else 0) - (if busy_week then 0.10 else 0)
              + (if pa_support then 0.10 else 0) + (if win then 0.05 else 0)
              - (if weekly_hours > 5.0 then 0.10 else 0)))\<bar> \<le> 5 / 2 ^ 50"
    by (rule adherence_error)
  also have "(5 :: real) / 2 ^ 50 \<le> 1 / 10 ^ 14"
    by simp
  finally show "\<bar>weekly_adherence_probability base travel pa_support busy_week win weekly_hours
         - max 0.05 (min 0.95
             (base - (if travel then 0.15 else 0) - (if busy_week then 0.10 else 0)
              + (if pa_support then 0.10 else 0) + (if win then 0.05 else 0)
              - (if weekly_hours > 5.0 then 0.10 else 0)))\<bar> \<le> 1 / 10 ^ 14" .
next
  show e: "weekly_adherence_probability 0.5 True True False False 4.0
      = 2026619832316723 / 4503599627370496"
    using sample_adherence by simp
  show "round_to_double 0.45 - weekly_adherence_probability 0.5 True True False False 4.0
      = 1 / 2 ^ 54"
    unfolding e d045 by simp
qed

theorem weekly_adherence_probability_formula_witness:
  "(0 :: real) \<le> 0.5 \<and> (0.5 :: real) \<le> 1
   \<and> \<bar>weekly_adherence_probability 0.5 True True False False 4.0 - 0.45\<bar> \<le> 1 / 10 ^ 14
   \<and> round_to_double 0.05 \<le> weekly_adherence_probability 0.5 True True False False 4.0
   \<and> weekly_adherence_probability 0.5 True True False False 4.0 \<le> round_to_double 0.95"
  using weekly_adherence_probability_formula [of "0.5" True True False False "4.0"]
  by simp

subsection \<open>Physiological bands\<close>

lemma weekly_bounds_in_bands: "in_bands (weekly_bounds s)"
  by (simp add: in_bands_def weekly_bounds_def)

lemma begin_week_state:
  "fst (snd (snd (begin_week e s travel busy g))) =
     weekly_bounds (fst (add_noise
       (if travel then apply_travel_penalty (fst (snd (adherence_loop (interventions e) travel busy
              (last_week_win (ctx e)) (sum_list (map time_cost_hours (interventions e))) Map.empty s g)))
        else fst (snd (adherence_loop (interventions e) travel busy
              (last_week_win (ctx e)) (sum_list (map time_cost_hours (interventions e))) Map.empty s g)))
       (snd (snd (adherence_loop (interventions e) travel busy
              (last_week_win (ctx e)) (sum_list (map time_cost_hours (interventions e))) Map.empty s g)))))"
  by (simp only: begin_week_def Let_def case_prod_beta fst_conv snd_conv)

text \<open>
  Claim C3. Whatever the state before, the adherence outcomes, the travel flag and the
  noise draws, the state that a weekly update leaves has every metric inside its band.
\<close>

theorem begin_week_in_bands:
  "in_bands (fst (snd (snd (begin_week e s travel busy g))))"
  by (simp only: begin_week_state weekly_bounds_in_bands)

subsection \<open>The suppression gate\<close>

lemma emit_None:
  "recent e (sender msg, k) = None \<Longrightarrow>
   emit msg k W e = ([msg], e\<lparr>recent := (recent e)((sender msg, k) \<mapsto> timestamp msg)\<rparr>)"
  by (simp add: emit_def)

lemma emit_Some:
  "recent e (sender msg, k) = Some prev \<Longrightarrow>
   emit msg k W e =
     (if real_of_int ((timestamp msg - prev) * 60) / 3600 < W then ([], e)
      else ([msg], e\<lparr>recent := (recent e)((sender msg, k) \<mapsto> timestamp msg)\<rparr>))"
  by (simp add: emit_def)

text \<open>
  Claim C5. The suppression gate emits a message, as the one-element list, and records its
  timestamp when no message of the same (sender, kind) was emitted before or the last
  emitted one is at least the window older; it returns the empty list and leaves the
  record alone when the last emitted one is less than the window older. So three calls
  for one (sender, kind), the second inside the window of the first and the third a
  window or more after the first, give a message, nothing, and a message.
\<close>

theorem emit_suppression:
  "(recent e (sender msg, k) = None \<longrightarrow>
      emit msg k W e = ([msg], e\<lparr>recent := (recent e)((sender msg, k) \<mapsto> timestamp msg)\<rparr>))
   \<and> (\<forall>prev. recent e (sender msg, k) = Some prev
          \<longrightarrow> W \<le> real_of_int ((timestamp msg - prev) * 60) / 3600
          \<longrightarrow> emit msg k W e = ([msg], e\<lparr>recent := (recent e)((sender msg, k) \<mapsto> timestamp msg)\<rparr>))
   \<and> (\<forall>prev. recent e (sender msg, k) = Some prev
          \<longrightarrow> real_of_int ((timestamp msg - prev) * 60) / 3600 < W
          \<longrightarrow> emit msg k W e = ([], e))
   \<and> (\<forall>(m2::message) (m3::message). recent e (sender msg, k) = None
          \<longrightarrow> sender m2 = sender msg \<longrightarrow> sender m3 = sender msg
          \<longrightarrow> real_of_int ((timestamp m2 - timestamp msg) * 60) / 3600 < W
          \<longrightarrow> W \<le> real_of_int ((timestamp m3 - timestamp msg) * 60) / 3600
          \<longrightarrow> (case emit msg k W e of (r1, e1) \<Rightarrow>
               case emit m2 k W e1 of (r2, e2) \<Rightarrow>
               case emit m3 k W e2 of (r3, e3) \<Rightarrow>
                 r1 = [msg] \<and> r2 = [] \<and> r3 = [m3]
                 \<and> recent e2 (sender msg, k) = Some (timestamp msg)
                 \<and> recent e3 (sender msg, k) = Some (timestamp m3)))"
proof (intro conjI allI impI)
  assume "recent e (sender msg, k) = None"
  then show "emit msg k W e = ([msg], e\<lparr>recent := (recent e)((sender msg, k) \<mapsto> timestamp msg)\<rparr>)"
    by (rule emit_None)
next
  fix prev
  assume "recent e (sender msg, k) = Some prev"
    and "W \<le> real_of_int ((timestamp msg - prev) * 60) / 3600"
  then show "emit msg k W e = ([msg], e\<lparr>recent := (recent e)((sender msg, k) \<mapsto> timestamp msg)\<rparr>)"
    by (simp add: emit_Some)
next
  fix prev
  assume "recent e (sender msg, k) = Some prev"
    and "real_of_int ((timestamp msg - prev) * 60) / 3600 < W"
  then show "emit msg k W e = ([], e)"
    by (simp add: emit_Some)
next
  fix m2 m3 :: message
  assume fresh: "recent e (sender msg, k) = None"
    and s2: "sender m2 = sender msg" and s3: "sender m3 = sender msg"
    and near: "real_of_int ((timestamp m2 - timestamp msg) * 60) / 3600 < W"
    and far: "W \<le> real_of_int ((timestamp m3 - timestamp msg) * 60) / 3600"
  let ?e1 = "e\<lparr>recent := (recent e)((sender msg, k) \<mapsto> timestamp msg)\<rparr>"
  have 1: "emit msg k W e = ([msg], ?e1)"
    using fresh by (rule emit_None)
  have r1: "recent ?e1 (sender m2, k) = Some (timestamp msg)"
    by (simp add: s2)
  have 2: "emit m2 k W ?e1 = ([], ?e1)"
    using near by (simp add: emit_Some [OF r1])
  have r3: "recent ?e1 (sender m3, k) = Some (timestamp msg)"
    by (simp add: s3)
  have 3: "emit m3 k W ?e1 = ([m3], ?e1\<lparr>recent := (recent ?e1)((sender m3, k) \<mapsto> timestamp m3)\<rparr>)"
    using far by (simp add: emit_Some [OF r3])
  show "case emit msg k W e of (r1, e1) \<Rightarrow>
               case emit m2 k W e1 of (r2, e2) \<Rightarrow>
               case emit m3 k W e2 of (r3, e3) \<Rightarrow>
                 r1 = [msg] \<and> r2 = [] \<and> r3 = [m3]
                 \<and> recent e2 (sender msg, k) = Some (timestamp msg)
                 \<and> recent e3 (sender msg, k) = Some (timestamp m3)"
    by (simp add: 1 2 3 s3)
qed

theorem emit_suppression_witness:
  "recent (new_engine None) (sender (Message 0 (voice ''pa'') ''Reminder set.'' False ''pa_ack''), ''pa_ack'') = None
   \<and> fst (emit (Message 0 (voice ''pa'') ''Reminder set.'' False ''pa_ack'') ''pa_ack'' 8 (new_engine None))
       = [Message 0 (voice ''pa'') ''Reminder set.'' False ''pa_ack'']
   \<and> emit (Message 60 (voice ''pa'') ''Reminder set.'' False ''pa_ack'') ''pa_ack'' 8
        ((new_engine None)\<lparr>recent := [(voice ''pa'', ''pa_ack'') \<mapsto> 0]\<rparr>)
       = ([], (new_engine None)\<lparr>recent := [(voice ''pa'', ''pa_ack'') \<mapsto> 0]\<rparr>)
   \<and> fst (emit (Message 480 (voice ''pa'') ''Reminder set.'' False ''pa_ack'') ''pa_ack'' 8
        ((new_engine None)\<lparr>recent := [(voice ''pa'', ''pa_ack'') \<mapsto> 0]\<rparr>))
       = [Message 480 (voice ''pa'') ''Reminder set.'' False ''pa_ack'']"
  using emit_suppression [of "new_engine None" "Message 0 (voice ''pa'') ''Reminder set.'' False ''pa_ack''" "''pa_ack''" 8]
    emit_suppression [of "(new_engine None)\<lparr>recent := [(voice ''pa'', ''pa_ack'') \<mapsto> 0]\<rparr>"
       "Message 60 (voice ''pa'') ''Reminder set.'' False ''pa_ack''" "''pa_ack''" 8]
    emit_suppression [of "(new_engine None)\<lparr>recent := [(voice ''pa'', ''pa_ack'') \<mapsto> 0]\<rparr>"
       "Message 480 (voice ''pa'') ''Reminder set.'' False ''pa_ack''" "''pa_ack''" 8]
  by (simp add: new_engine_def Message_def)

subsection \<open>Cleanup and enhancement\<close>

lemmas char_classes = is_space_def is_linebreak_def is_lower_def is_word_char_def lower_char_def
  upper_char_def at_eol_def is_punct_def

text \<open>
  Claim C7 asks that the cleanup pass is idempotent. It is not: the body \<^verbatim>\<open>Ok?..\<close>
  is cleaned to \<^verbatim>\<open>Ok?.\<close>, which a second pass cleans to \<^verbatim>\<open>Ok?\<close>, in the cleanup of
  the engine and in the cleanup of the templates.
\<close>

theorem tidy_not_idempotent:
  "tidy ''Ok?..'' = ''Ok?.'' \<and> tidy (tidy ''Ok?..'') = ''Ok?''
   \<and> tidy_text ''Ok?..'' = ''Ok?.'' \<and> tidy_text (tidy_text ''Ok?..'') = ''Ok?''"
proof -
  have 1: "tidy ''Ok?..'' = ''Ok?.''"
    by (simp add: tidy_def strip_def splitlines_def cap_line_def Let_def char_classes)
  have 2: "tidy ''Ok?.'' = ''Ok?''"
    by (simp add: tidy_def strip_def splitlines_def cap_line_def Let_def char_classes)
  have 3: "tidy_text ''Ok?..'' = ''Ok?.''"
    by (simp add: tidy_text_def strip_def splitlines_def cap_line_def Let_def char_classes)
  have 4: "tidy_text ''Ok?.'' = ''Ok?''"
    by (simp add: tidy_text_def strip_def splitlines_def cap_line_def Let_def char_classes)
  show ?thesis
    by (simp only: 1 2 3 4)
qed









subsection \<open>The builders and the driver\<close>

lemma random_unit_range: "0 \<le> fst (random_unit g) \<and> fst (random_unit g) < 1"
  by (simp add: random_unit_def next_draw_def frac_lt_1)

lemma choice_in_set:
  assumes "xs \<noteq> []"
  shows "fst (choice xs g) \<in> set xs"
proof -
  let ?u = "fst (random_unit g)"
  let ?n = "length xs"
  have u: "0 \<le> ?u" "?u < 1"
    using random_unit_range by auto
  have n: "0 < ?n"
    using assms by simp
  have "?u * real ?n < real ?n"
    using u n by simp
  then have "\<lfloor>?u * real ?n\<rfloor> < int ?n"
    by (simp add: floor_less_iff)
  moreover have "0 \<le> \<lfloor>?u * real ?n\<rfloor>"
    using u by simp
  ultimately have "nat \<lfloor>?u * real ?n\<rfloor> < ?n"
    by linarith
  then show ?thesis
    by (simp add: choice_def case_prod_beta)
qed

lemma voices:
  "voice ''carla'' = ''Carla (Elyx Nutrition)''"
  "voice ''dr_warren'' = ''Dr. Warren (Elyx Medical)''"
  "voice ''advik'' = ''Advik (Elyx Performance Scientist)''"
  "voice ''member'' = ''Rohan''"
  by (simp_all add: voice_def VOICES_def)

lemma recent_remember_opener: "recent (remember_opener T r b e) = recent e"
  by (simp add: remember_opener_def Let_def)

lemma emit_other_key:
  "key \<noteq> (sender msg, k) \<Longrightarrow> recent (snd (emit msg k W e)) key = recent e key"
  by (simp add: emit_def Let_def split: option.splits)

lemma emit_fresh:
  "recent e (sender msg, k) = None \<Longrightarrow>
   fst (emit msg k W e) = [msg]
   \<and> recent (snd (emit msg k W e)) = (recent e)((sender msg, k) \<mapsto> timestamp msg)"
  by (simp add: emit_def)

lemma emit_within:
  "recent e (sender msg, k) = Some prev \<Longrightarrow>
   real_of_int ((timestamp msg - prev) * 60) / 3600 < W \<Longrightarrow>
   emit msg k W e = ([], e)"
  by (simp add: emit_def)

lemma sender_Message: "sender (Message ts who body b k) = who"
  and timestamp_Message: "timestamp (Message ts who body b k) = ts"
  and initiated_Message: "initiated_by_member (Message ts who body b k) = b"
  by (simp_all add: Message_def)

lemma emit_and_remember_other_key:
  "key \<noteq> (voice r, k) \<Longrightarrow>
   recent (snd (emit_and_remember T ts r body k W e)) key = recent e key"
  by (simp add: emit_and_remember_def Let_def case_prod_beta recent_remember_opener
      emit_other_key sender_Message)

lemma emit_and_remember_fresh:
  "recent e (voice r, k) = None \<Longrightarrow>
   fst (emit_and_remember T ts r body k W e) = [Message ts (voice r) body False k]
   \<and> recent (snd (emit_and_remember T ts r body k W e)) = (recent e)((voice r, k) \<mapsto> ts)"
  using emit_fresh [of e "Message ts (voice r) body False k" k W]
  by (simp add: emit_and_remember_def Let_def case_prod_beta recent_remember_opener
      sender_Message timestamp_Message)

text \<open>The three expert builders.\<close>

lemma nutrition_update_other_key:
  "key \<noteq> (voice ''carla'', ''nutrition_update'') \<Longrightarrow>
   recent (fst (snd (nutrition_update T ts tr e g))) key = recent e key"
  by (simp add: nutrition_update_def case_prod_beta emit_and_remember_other_key)

lemma nutrition_update_fresh:
  "recent e (voice ''carla'', ''nutrition_update'') = None \<Longrightarrow>
   fst (nutrition_update T ts tr e g)
     = [Message ts (voice ''carla'') (fst (nutrition_update_body T e tr g)) False ''nutrition_update'']
   \<and> recent (fst (snd (nutrition_update T ts tr e g)))
     = (recent e)((voice ''carla'', ''nutrition_update'') \<mapsto> ts)"
  by (simp add: nutrition_update_def case_prod_beta emit_and_remember_fresh)

lemma medical_checkin_other_key:
  "key \<noteq> (voice ''dr_warren'', ''medical_checkin'') \<Longrightarrow>
   recent (fst (snd (medical_checkin T ts s e g))) key = recent e key"
  by (simp add: medical_checkin_def case_prod_beta emit_and_remember_other_key)

lemma medical_checkin_fresh:
  "recent e (voice ''dr_warren'', ''medical_checkin'') = None \<Longrightarrow>
   fst (medical_checkin T ts s e g)
     = [Message ts (voice ''dr_warren'') (fst (medical_checkin_body T e s g)) False ''medical_checkin'']
   \<and> recent (fst (snd (medical_checkin T ts s e g)))
     = (recent e)((voice ''dr_warren'', ''medical_checkin'') \<mapsto> ts)"
  by (simp add: medical_checkin_def case_prod_beta emit_and_remember_fresh)

lemma wearable_anomaly_other_key:
  "key \<noteq> (voice ''advik'', ''wearable_anomaly'') \<Longrightarrow>
   recent (fst (snd (wearable_anomaly T ts s tr e g))) key = recent e key"
  by (simp add: wearable_anomaly_def case_prod_beta emit_and_remember_other_key)

lemma wearable_anomaly_fresh:
  "recent e (voice ''advik'', ''wearable_anomaly'') = None \<Longrightarrow>
   fst (wearable_anomaly T ts s tr e g)
     = [Message ts (voice ''advik'') (fst (wearable_anomaly_body T e s tr g)) False ''wearable_anomaly'']
   \<and> recent (fst (snd (wearable_anomaly T ts s tr e g)))
     = (recent e)((voice ''advik'', ''wearable_anomaly'') \<mapsto> ts)"
  by (simp add: wearable_anomaly_def case_prod_beta emit_and_remember_fresh)

lemma member_curiosity_other_key:
  "key \<noteq> (voice ''member'', ''member_curiosity'') \<Longrightarrow>
   recent (fst (snd (member_curiosity T ts e g))) key = recent e key"
  by (simp add: member_curiosity_def case_prod_beta Let_def emit_other_key sender_Message)

lemma member_curiosity_fresh:
  "recent e (voice ''member'', ''member_curiosity'') = None \<Longrightarrow>
   fst (member_curiosity T ts e g)
     = [Message ts (voice ''member'') (fst (member_curiosity_body T g)) True ''member_curiosity'']"
  using emit_fresh [of e "Message ts (voice ''member'') (fst (member_curiosity_body T g)) True ''member_curiosity''" "''member_curiosity''" 4]
  by (simp add: member_curiosity_def case_prod_beta Let_def sender_Message)

lemma member_curiosity_within:
  "recent e (voice ''member'', ''member_curiosity'') = Some prev \<Longrightarrow>
   real_of_int ((ts - prev) * 60) / 3600 < 4 \<Longrightarrow>
   fst (member_curiosity T ts e g) = [] \<and> fst (snd (member_curiosity T ts e g)) = e"
  using emit_within [of e "Message ts (voice ''member'') (fst (member_curiosity_body T g)) True ''member_curiosity''" "''member_curiosity''" prev 4]
  by (simp add: member_curiosity_def case_prod_beta Let_def sender_Message timestamp_Message)

text \<open>The member-curiosity branch of the driver, written with projections.\<close>

lemma route_member_curiosity:
  assumes "kind ev = ''member_curiosity''"
  shows "route_event T traveling ev rs =
    (let m = member_curiosity T (when ev) (engine rs) (gen rs);
         n = nutrition_update T (when ev + 15) traveling (fst (snd m)) (snd (snd m));
         c = medical_checkin T (when ev + 15) (state rs) (fst (snd n)) (snd (snd n));
         w = wearable_anomaly T (when ev + 15) (state rs) traveling (fst (snd c)) (snd (snd c));
         ch = choice [fst n, fst c, fst w] (snd (snd w))
     in rs\<lparr>engine := fst (snd w), gen := snd ch, messages := messages rs @ fst m @ fst ch\<rparr>)"
  using assms by (simp add: route_event_def case_prod_beta Let_def minutes_apart_def)

lemma expert_keys_distinct:
  "(voice ''carla'', ''nutrition_update'') \<noteq> (voice ''member'', ''member_curiosity'')"
  "(voice ''dr_warren'', ''medical_checkin'') \<noteq> (voice ''member'', ''member_curiosity'')"
  "(voice ''advik'', ''wearable_anomaly'') \<noteq> (voice ''member'', ''member_curiosity'')"
  "(voice ''dr_warren'', ''medical_checkin'') \<noteq> (voice ''carla'', ''nutrition_update'')"
  "(voice ''advik'', ''wearable_anomaly'') \<noteq> (voice ''carla'', ''nutrition_update'')"
  "(voice ''advik'', ''wearable_anomaly'') \<noteq> (voice ''dr_warren'', ''medical_checkin'')"
  "(voice ''carla'', ''nutrition_update'') \<noteq> (voice ''dr_warren'', ''medical_checkin'')"
  "(voice ''carla'', ''nutrition_update'') \<noteq> (voice ''advik'', ''wearable_anomaly'')"
  "(voice ''dr_warren'', ''medical_checkin'') \<noteq> (voice ''advik'', ''wearable_anomaly'')"
  by simp_all

text \<open>
  What the three expert builders do, one after the other, on an engine that has no
  record of any of the three expert kinds.
\<close>

lemma three_experts_fresh:
  fixes e1 :: content_engine and T :: text_layer and ts :: datetime and traveling :: bool
    and g1 :: rng and s :: biomarker_state
  assumes free: "recent e1 (voice ''carla'', ''nutrition_update'') = None"
      "recent e1 (voice ''dr_warren'', ''medical_checkin'') = None"
      "recent e1 (voice ''advik'', ''wearable_anomaly'') = None"
  defines "n \<equiv> nutrition_update T ts traveling e1 g1"
  defines "c \<equiv> medical_checkin T ts s (fst (snd n)) (snd (snd n))"
  defines "w \<equiv> wearable_anomaly T ts s traveling (fst (snd c)) (snd (snd c))"
  shows "fst n = [Message ts (voice ''carla'') (fst (nutrition_update_body T e1 traveling g1)) False ''nutrition_update'']
    \<and> (\<exists>body. fst c = [Message ts (voice ''dr_warren'') body False ''medical_checkin''])
    \<and> (\<exists>body. fst w = [Message ts (voice ''advik'') body False ''wearable_anomaly''])
    \<and> recent (fst (snd w)) =
           (recent e1)((voice ''carla'', ''nutrition_update'') \<mapsto> ts,
                       (voice ''dr_warren'', ''medical_checkin'') \<mapsto> ts,
                       (voice ''advik'', ''wearable_anomaly'') \<mapsto> ts)"
proof -
  have n1: "fst n = [Message ts (voice ''carla'') (fst (nutrition_update_body T e1 traveling g1)) False ''nutrition_update'']"
    and n2: "recent (fst (snd n)) = (recent e1)((voice ''carla'', ''nutrition_update'') \<mapsto> ts)"
    unfolding n_def using nutrition_update_fresh [OF free(1)] by auto
  have cfree: "recent (fst (snd n)) (voice ''dr_warren'', ''medical_checkin'') = None"
    using free(2) expert_keys_distinct by (simp add: n2)
  have c1: "fst c = [Message ts (voice ''dr_warren'') (fst (medical_checkin_body T (fst (snd n)) s (snd (snd n)))) False ''medical_checkin'']"
    and c2: "recent (fst (snd c)) = (recent (fst (snd n)))((voice ''dr_warren'', ''medical_checkin'') \<mapsto> ts)"
    unfolding c_def using medical_checkin_fresh [OF cfree] by auto
  have wfree: "recent (fst (snd c)) (voice ''advik'', ''wearable_anomaly'') = None"
    using free(3) expert_keys_distinct by (simp add: c2 n2)
  have w1: "fst w = [Message ts (voice ''advik'') (fst (wearable_anomaly_body T (fst (snd c)) s traveling (snd (snd c)))) False ''wearable_anomaly'']"
    and w2: "recent (fst (snd w)) = (recent (fst (snd c)))((voice ''advik'', ''wearable_anomaly'') \<mapsto> ts)"
    unfolding w_def using wearable_anomaly_fresh [OF wfree] by auto
  have "recent (fst (snd w)) =
           (recent e1)((voice ''carla'', ''nutrition_update'') \<mapsto> ts,
                       (voice ''dr_warren'', ''medical_checkin'') \<mapsto> ts,
                       (voice ''advik'', ''wearable_anomaly'') \<mapsto> ts)"
    by (simp only: w2 c2 n2)
  with n1 c1 w1 show ?thesis
    by blast
qed

lemma emit_result: "fst (emit msg k W e) = [] \<or> fst (emit msg k W e) = [msg]"
  by (simp add: emit_def Let_def split: option.splits)

lemma emit_and_remember_result:
  "fst (emit_and_remember T ts r body k W e) = []
   \<or> fst (emit_and_remember T ts r body k W e) = [Message ts (voice r) body False k]"
  using emit_result [of "Message ts (voice r) body False k" k W e]
  by (auto simp: emit_and_remember_def Let_def case_prod_beta)

lemma nutrition_update_result:
  "m \<in> set (fst (nutrition_update T ts tr e g)) \<Longrightarrow>
   timestamp m = ts \<and> \<not> initiated_by_member m \<and> sender m = voice ''carla''"
  using emit_and_remember_result [of T ts "''carla''" "fst (nutrition_update_body T e tr g)" "''nutrition_update''" 12 e]
  by (auto simp: nutrition_update_def case_prod_beta sender_Message timestamp_Message initiated_Message)

lemma medical_checkin_result:
  "m \<in> set (fst (medical_checkin T ts s e g)) \<Longrightarrow>
   timestamp m = ts \<and> \<not> initiated_by_member m \<and> sender m = voice ''dr_warren''"
  using emit_and_remember_result [of T ts "''dr_warren''" "fst (medical_checkin_body T e s g)" "''medical_checkin''" 8 e]
  by (auto simp: medical_checkin_def case_prod_beta sender_Message timestamp_Message initiated_Message)

lemma wearable_anomaly_result:
  "m \<in> set (fst (wearable_anomaly T ts s tr e g)) \<Longrightarrow>
   timestamp m = ts \<and> \<not> initiated_by_member m \<and> sender m = voice ''advik''"
  using emit_and_remember_result [of T ts "''advik''" "fst (wearable_anomaly_body T e s tr g)" "''wearable_anomaly''" 10 e]
  by (auto simp: wearable_anomaly_def case_prod_beta sender_Message timestamp_Message initiated_Message)

lemma choice_of_three: "fst (choice [a, b, c] g) = a \<or> fst (choice [a, b, c] g) = b \<or> fst (choice [a, b, c] g) = c"
  using choice_in_set [where xs = "[a, b, c]" and g = g] by auto

text \<open>
  Claim C6 asks that a member-curiosity event invokes one expert builder only and leaves
  the records of the other two kinds alone. The driver builds the list of the three
  replies before it chooses: on an engine with no record at all, an event at time t
  leaves a record at t + 15 for each of the three expert kinds, and two messages (the
  member's and the chosen reply).
\<close>

theorem curiosity_event_runs_all_three_experts:
  "recent (engine (route_event T traveling
       \<lparr>kind = ''member_curiosity'', week = w, when = t, meta = None\<rparr> (initial_run delegate g)))
     = [(voice ''member'', ''member_curiosity'') \<mapsto> t,
        (voice ''carla'', ''nutrition_update'') \<mapsto> t + 15,
        (voice ''dr_warren'', ''medical_checkin'') \<mapsto> t + 15,
        (voice ''advik'', ''wearable_anomaly'') \<mapsto> t + 15]
   \<and> length (messages (route_event T traveling
       \<lparr>kind = ''member_curiosity'', week = w, when = t, meta = None\<rparr> (initial_run delegate g))) = 2"
proof -
  let ?ev = "\<lparr>kind = ''member_curiosity'', week = w, when = t, meta = None\<rparr>"
  let ?rs = "initial_run delegate g"
  let ?m = "member_curiosity T t (engine ?rs) (gen ?rs)"
  let ?e1 = "fst (snd ?m)"
  let ?n = "nutrition_update T (t + 15) traveling ?e1 (snd (snd ?m))"
  let ?c = "medical_checkin T (t + 15) (state ?rs) (fst (snd ?n)) (snd (snd ?n))"
  let ?w = "wearable_anomaly T (t + 15) (state ?rs) traveling (fst (snd ?c)) (snd (snd ?c))"
  let ?ch = "choice [fst ?n, fst ?c, fst ?w] (snd (snd ?w))"
  have route: "route_event T traveling ?ev ?rs
      = ?rs\<lparr>engine := fst (snd ?w), gen := snd ?ch, messages := messages ?rs @ fst ?m @ fst ?ch\<rparr>"
    using route_member_curiosity [of ?ev T traveling ?rs] by (simp add: Let_def)
  have empty: "recent (engine ?rs) = Map.empty" "messages ?rs = []"
    by (simp_all add: initial_run_def new_engine_def)
  have m0: "length (fst ?m) = 1"
    using member_curiosity_fresh [of "engine ?rs" T t "gen ?rs"] by (simp add: empty)
  have e1: "recent ?e1 = [(voice ''member'', ''member_curiosity'') \<mapsto> t]"
    using emit_fresh [of "engine ?rs" "Message t (voice ''member'') (fst (member_curiosity_body T (gen ?rs))) True ''member_curiosity''" "''member_curiosity''" 4]
    by (simp add: member_curiosity_def case_prod_beta Let_def sender_Message timestamp_Message empty)
  have free: "recent ?e1 (voice ''carla'', ''nutrition_update'') = None"
    "recent ?e1 (voice ''dr_warren'', ''medical_checkin'') = None"
    "recent ?e1 (voice ''advik'', ''wearable_anomaly'') = None"
    using expert_keys_distinct by (simp_all add: e1)
  note three = three_experts_fresh [OF free, where T = T and ts = "t + 15" and traveling = traveling
      and ?g1.0 = "snd (snd ?m)" and s = "state ?rs"]
  have len: "length (fst ?n) = 1" "length (fst ?c) = 1" "length (fst ?w) = 1"
    using three by auto
  have reply: "length (fst ?ch) = 1"
    using choice_of_three [where a = "fst ?n" and b = "fst ?c" and c = "fst ?w" and g = "snd (snd ?w)"] len
    by auto
  have rec: "recent (fst (snd ?w)) =
      [(voice ''member'', ''member_curiosity'') \<mapsto> t,
        (voice ''carla'', ''nutrition_update'') \<mapsto> t + 15,
        (voice ''dr_warren'', ''medical_checkin'') \<mapsto> t + 15,
        (voice ''advik'', ''wearable_anomaly'') \<mapsto> t + 15]"
    using three by (simp only: e1)
  show ?thesis
    by (simp add: route rec empty m0 reply)
qed

text \<open>Draws from a stream given by its values.\<close>

lemma random_unit_at: "random_unit (drop_draws k g) = (frac (g k), drop_draws (k + 1) g)"
  by (simp add: random_unit_def next_draw_def drop_draws_def)

lemma randint_at:
  "randint lo hi (drop_draws k g) = (lo + \<lfloor>frac (g k) * of_int (hi - lo + 1)\<rfloor>, drop_draws (k + 1) g)"
  by (simp add: randint_def random_unit_at)

lemma choice_at:
  "choice xs (drop_draws k g) = (xs ! nat \<lfloor>frac (g k) * of_nat (length xs)\<rfloor>, drop_draws (k + 1) g)"
  by (simp add: choice_def random_unit_at)

lemma random_time_at:
  "random_time base lo hi (drop_draws k g) =
     (replace_time base (lo + \<lfloor>frac (g k) * of_int (hi - lo + 1)\<rfloor>)
        ([0, 5, 10, 15, 20, 25, 30, 35, 40, 45, 50, 55] ! nat \<lfloor>frac (g (k + 1)) * 12\<rfloor>),
      drop_draws (k + 2) g)"
  by (simp add: random_time_def randint_at choice_at add.assoc)

lemma sample_draws_values:
  "sample_draws 0 = 12 / 13" "sample_draws 1 = 0" "sample_draws 2 = 0"
  "sample_draws 3 = 1 / 7" "sample_draws 4 = 0" "sample_draws 5 = 0"
  "sample_draws 6 = 1 / 7" "sample_draws 7 = 5 / 13" "sample_draws 8 = 0"
  "sample_draws 9 = 1 / 7" "sample_draws 10 = 8 / 13" "sample_draws 11 = 1 / 2"
  "sample_draws 12 = 1 / 2" "sample_draws 13 = 0" "sample_draws 14 = 0"
  "sample_draws 15 = 1 / 3" "sample_draws (Suc 0) = 0" "sample_draws (Suc (Suc 0)) = 0"
  by (simp_all add: sample_draws_def)

lemma frac_values:
  "frac (12 / 13 :: real) = 12 / 13" "frac (1 / 7 :: real) = 1 / 7" "frac (5 / 13 :: real) = 5 / 13"
  "frac (8 / 13 :: real) = 8 / 13" "frac (1 / 2 :: real) = 1 / 2" "frac (1 / 3 :: real) = 1 / 3"
  by (simp_all add: frac_def)

lemma three_questions: "curiosity_events 3 = curiosity_events (Suc (Suc (Suc 0)))"
  by (simp add: numeral_3_eq_3)

lemma sample_curiosity_events:
  "curiosity_events 3 1 540 (drop_draws 3 sample_draws) =
     ([Event ''member_curiosity'' 1 1920, Event ''member_curiosity'' 1 2220,
       Event ''member_curiosity'' 1 2430], drop_draws 12 sample_draws)"
  by (simp add: three_questions randint_at random_time_at sample_draws_values frac_values
      plus_days_def replace_time_def dt_day_def del: One_nat_def)

lemma sample_week_events:
  "week_events sample_clock (build_travel_plan 1) 1 (drop_draws 0 sample_draws) =
     ([Event ''weekly_report'' 1 1200, Event ''member_curiosity'' 1 1920,
       Event ''member_curiosity'' 1 2220, Event ''member_curiosity'' 1 2430],
      drop_draws 13 sample_draws)"
  by (simp add: week_events_def Let_def randint_at random_time_at random_unit_at
      sample_draws_values frac_values sample_curiosity_events
      destination_for_week_def build_travel_plan_def diagnostic_weeks_def
      datetime_for_def plus_days_def replace_time_def dt_day_def del: One_nat_def)

lemma sample_build_events:
  "build_events sample_clock (build_travel_plan 1) 1 sample_draws =
     ([Event ''weekly_report'' 1 1200, Event ''member_curiosity'' 1 1920,
       Event ''member_curiosity'' 1 2220, Event ''member_curiosity'' 1 2430],
      drop_draws 13 sample_draws)"
proof -
  have start: "sample_draws = drop_draws 0 sample_draws"
    by (simp add: drop_draws_def)
  have "weeks_loop sample_clock (build_travel_plan 1) 1 (Suc 0) (drop_draws 0 sample_draws) =
     ([Event ''weekly_report'' 1 1200, Event ''member_curiosity'' 1 1920,
       Event ''member_curiosity'' 1 2220, Event ''member_curiosity'' 1 2430],
      drop_draws 13 sample_draws)"
    by (simp add: sample_week_events del: One_nat_def)
  then show ?thesis
    unfolding build_events_def by (subst start) (simp add: Event_def)
qed

lemma before_third_question_facts:
  "recent (engine before_third_question) (voice ''member'', ''member_curiosity'') = Some 2220
   \<and> recent (engine before_third_question) (voice ''carla'', ''nutrition_update'') = Some 1935
   \<and> recent (engine before_third_question) (voice ''dr_warren'', ''medical_checkin'') = Some 1935
   \<and> recent (engine before_third_question) (voice ''advik'', ''wearable_anomaly'') = Some 1935
   \<and> gen before_third_question = drop_draws 15 sample_draws
   \<and> current_week before_third_question = 1
   \<and> messages before_third_question =
       [Message 1200 (voice ''ruby'') ''Report.'' False ''weekly_report'',
        Message 1920 (voice ''member'') ''Quick take?'' True ''member_curiosity'',
        Message 1935 (voice ''carla'') ''Nutrition.'' False ''nutrition_update'',
        Message 2220 (voice ''member'') ''Quick take?'' True ''member_curiosity'']"
  unfolding before_third_question_def sample_build_events
  by (simp add: run_events_def driver_step_def route_event_def Let_def
      weekly_report_def member_curiosity_def nutrition_update_def medical_checkin_def
      wearable_anomaly_def emit_and_remember_def emit_def remember_opener_def
      sample_texts_def Message_def voice_def VOICES_def choice_at sample_draws_values frac_values
      initial_run_def new_engine_def Event_def in_monday_window_def weekday_def
      dt_day_def dt_hour_def minutes_apart_def destination_for_week_def build_travel_plan_def
      sample_clock_def)

lemma member_curiosity_draws:
  "snd (snd (member_curiosity T ts e g)) = snd (member_curiosity_body T g)"
  by (simp add: member_curiosity_def case_prod_beta Let_def)

text \<open>The sample run ends with the third member question.\<close>

lemma sample_run_last_step:
  "main sample_clock sample_texts None 1 sample_draws =
     route_event sample_texts False (Event ''member_curiosity'' 1 2430) before_third_question"
proof -
  have "main sample_clock sample_texts None 1 sample_draws =
      driver_step sample_clock (build_travel_plan 1) sample_texts before_third_question
        (Event ''member_curiosity'' 1 2430)"
    unfolding main_def before_third_question_def Let_def sample_build_events prod.case
    by (simp add: run_events_def)
  also have "\<dots> = route_event sample_texts False (Event ''member_curiosity'' 1 2430)
      before_third_question"
    using before_third_question_facts
    by (simp add: driver_step_def Let_def Event_def in_monday_window_def weekday_def dt_day_def
        sample_clock_def destination_for_week_def build_travel_plan_def)
  finally show ?thesis .
qed

lemma sample_third_reply:
  "fst (choice
     [fst (nutrition_update sample_texts 2445 False (engine before_third_question)
             (drop_draws 15 sample_draws)),
      fst (medical_checkin sample_texts 2445 (state before_third_question)
             (fst (snd (nutrition_update sample_texts 2445 False (engine before_third_question)
                          (drop_draws 15 sample_draws))))
             (drop_draws 15 sample_draws)),
      fst (wearable_anomaly sample_texts 2445 (state before_third_question) False
             (fst (snd (medical_checkin sample_texts 2445 (state before_third_question)
                (fst (snd (nutrition_update sample_texts 2445 False (engine before_third_question)
                          (drop_draws 15 sample_draws))))
                (drop_draws 15 sample_draws))))
             (drop_draws 15 sample_draws))]
     (drop_draws 15 sample_draws))
   = [Message 2445 (voice ''dr_warren'') ''Check-in.'' False ''medical_checkin'']"
  using before_third_question_facts
  by (simp add: nutrition_update_def medical_checkin_def wearable_anomaly_def
      emit_and_remember_def emit_def remember_opener_def Let_def sample_texts_def
      Message_def voice_def VOICES_def choice_at sample_draws_values frac_values)

lemma sample_texts_draws:
  "snd (member_curiosity_body sample_texts g) = g"
  "snd (snd (nutrition_update sample_texts ts traveling e g)) = g"
  "snd (snd (medical_checkin sample_texts ts s e g)) = g"
  "snd (snd (wearable_anomaly sample_texts ts s traveling e g)) = g"
  by (simp_all add: nutrition_update_def medical_checkin_def wearable_anomaly_def
      sample_texts_def case_prod_beta Let_def)

text \<open>
  Claim C10. When the suppression window drops the member's message of a member-curiosity
  event (the builder returns the empty list), the driver still runs the three expert
  builders at the event time plus 15 minutes and appends the result of the one that the
  random choice picks, and nothing else: what it appends is dated 15 minutes after the
  event, is not member-initiated and comes from Carla, Dr. Warren or Advik. So the
  conversation can hold an expert reply with no member question before it: the one-week
  sample run reaches its third question, at 16:30, 3.5 hours after the second; the
  question is dropped and Dr. Warren's check-in of 16:45 ends the conversation.
\<close>

theorem curiosity_reply_without_question:
  assumes k: "kind ev = ''member_curiosity''"
    and sup: "recent (engine rs) (voice ''member'', ''member_curiosity'') = Some prev"
    and near: "real_of_int ((when ev - prev) * 60) / 3600 < 4"
  shows "fst (member_curiosity T (when ev) (engine rs) (gen rs)) = []
    \<and> (let g1 = snd (member_curiosity_body T (gen rs));
            n = nutrition_update T (when ev + 15) traveling (engine rs) g1;
            c = medical_checkin T (when ev + 15) (state rs) (fst (snd n)) (snd (snd n));
            w = wearable_anomaly T (when ev + 15) (state rs) traveling (fst (snd c)) (snd (snd c));
            reply = fst (choice [fst n, fst c, fst w] (snd (snd w)))
        in messages (route_event T traveling ev rs) = messages rs @ reply
           \<and> (reply = fst n \<or> reply = fst c \<or> reply = fst w)
           \<and> (\<forall>m \<in> set reply. timestamp m = when ev + 15 \<and> \<not> initiated_by_member m
                 \<and> sender m \<in> {voice ''carla'', voice ''dr_warren'', voice ''advik''}))"
proof -
  let ?m = "member_curiosity T (when ev) (engine rs) (gen rs)"
  let ?g1 = "snd (member_curiosity_body T (gen rs))"
  let ?n = "nutrition_update T (when ev + 15) traveling (engine rs) ?g1"
  let ?c = "medical_checkin T (when ev + 15) (state rs) (fst (snd ?n)) (snd (snd ?n))"
  let ?w = "wearable_anomaly T (when ev + 15) (state rs) traveling (fst (snd ?c)) (snd (snd ?c))"
  let ?reply = "fst (choice [fst ?n, fst ?c, fst ?w] (snd (snd ?w)))"
  let ?P = "\<lambda>m. timestamp m = when ev + 15 \<and> \<not> initiated_by_member m
                \<and> sender m \<in> {voice ''carla'', voice ''dr_warren'', voice ''advik''}"
  have dropped: "fst ?m = []" and same: "fst (snd ?m) = engine rs"
    using member_curiosity_within [OF sup near] by auto
  have draws: "snd (snd ?m) = ?g1"
    by (rule member_curiosity_draws)
  have route: "messages (route_event T traveling ev rs) = messages rs @ ?reply"
    using route_member_curiosity [OF k, of T traveling rs]
    by (simp add: Let_def dropped same draws)
  have cases: "?reply = fst ?n \<or> ?reply = fst ?c \<or> ?reply = fst ?w"
    by (rule choice_of_three)
  have all: "\<forall>m \<in> set ?reply. ?P m"
  proof
    fix m
    assume m: "m \<in> set ?reply"
    from cases m consider "m \<in> set (fst ?n)" | "m \<in> set (fst ?c)" | "m \<in> set (fst ?w)"
      by auto
    then show "?P m"
    proof cases
      case 1
      from nutrition_update_result [OF 1] show ?thesis by simp
    next
      case 2
      from medical_checkin_result [OF 2] show ?thesis by simp
    next
      case 3
      from wearable_anomaly_result [OF 3] show ?thesis by simp
    qed
  qed
  from dropped route cases all show ?thesis
    by (simp add: Let_def)
qed

theorem curiosity_reply_without_question_witness:
  "kind (Event ''member_curiosity'' 1 2430) = ''member_curiosity''
   \<and> recent (engine before_third_question) (voice ''member'', ''member_curiosity'') = Some 2220
   \<and> real_of_int ((when (Event ''member_curiosity'' 1 2430) - 2220) * 60) / 3600 < 4
   \<and> messages (main sample_clock sample_texts None 1 sample_draws) =
       [Message 1200 (voice ''ruby'') ''Report.'' False ''weekly_report'',
        Message 1920 (voice ''member'') ''Quick take?'' True ''member_curiosity'',
        Message 1935 (voice ''carla'') ''Nutrition.'' False ''nutrition_update'',
        Message 2220 (voice ''member'') ''Quick take?'' True ''member_curiosity'',
        Message 2445 (voice ''dr_warren'') ''Check-in.'' False ''medical_checkin'']"
proof -
  let ?C = "Event ''member_curiosity'' 1 2430"
  have k: "kind ?C = ''member_curiosity''"
    by (simp add: Event_def)
  have w: "\<And>wk. when (Event ''member_curiosity'' wk 2430) = 2430"
    by (simp add: Event_def)
  have sup: "recent (engine before_third_question) (voice ''member'', ''member_curiosity'')
      = Some 2220"
    by (rule conjunct1 [OF before_third_question_facts])
  have near: "real_of_int ((when ?C - 2220) * 60) / 3600 < 4"
    by (simp add: w)
  have g: "gen before_third_question = drop_draws 15 sample_draws"
    using before_third_question_facts by simp
  have sofar: "messages before_third_question =
       [Message 1200 (voice ''ruby'') ''Report.'' False ''weekly_report'',
        Message 1920 (voice ''member'') ''Quick take?'' True ''member_curiosity'',
        Message 1935 (voice ''carla'') ''Nutrition.'' False ''nutrition_update'',
        Message 2220 (voice ''member'') ''Quick take?'' True ''member_curiosity'']"
    using before_third_question_facts by simp
  from curiosity_reply_without_question [OF k sup near, of sample_texts False]
  have "messages (route_event sample_texts False ?C before_third_question) =
      messages before_third_question
      @ [Message 2445 (voice ''dr_warren'') ''Check-in.'' False ''medical_checkin'']"
    by (simp add: Let_def w g sample_texts_draws sample_third_reply)
  with k sup near show ?thesis
    unfolding sample_run_last_step sofar by simp
qed

text \<open>The weekly update in the driver.\<close>

lemma route_event_begin_week_calls:
  "begin_week_calls (route_event T traveling ev rs) = begin_week_calls rs"
  by (simp add: route_event_def case_prod_beta Let_def)

lemma driver_step_begin_week_calls:
  "begin_week_calls (driver_step clock tp T rs ev)
     = begin_week_calls rs @ (if in_monday_window clock ev then [week ev] else [])"
  by (simp add: driver_step_def Let_def case_prod_beta route_event_begin_week_calls)

lemma run_events_begin_week_calls:
  "begin_week_calls (run_events clock tp T events rs)
     = begin_week_calls rs @ map week (filter (in_monday_window clock) events)"
  unfolding run_events_def
  by (induction events arbitrary: rs) (simp_all add: driver_step_begin_week_calls)

subsection \<open>The scheduler\<close>

text \<open>The random source that always draws 0.\<close>

lemma zero_unit: "random_unit (\<lambda>_. 0) = (0, \<lambda>_. 0)"
  by (simp add: random_unit_def next_draw_def)

lemma zero_randint: "randint lo hi (\<lambda>_. 0) = (lo, \<lambda>_. 0)"
  by (simp add: randint_def zero_unit)

lemma zero_choice: "choice (x # xs) (\<lambda>_. 0) = (x, \<lambda>_. 0)"
  by (simp add: choice_def zero_unit)

lemma zero_random_time: "random_time base lo hi (\<lambda>_. 0) = (replace_time base lo 0, \<lambda>_. 0)"
  by (simp add: random_time_def zero_randint zero_choice)

lemma zero_curiosity_events:
  "curiosity_events 3 w base (\<lambda>_. 0) =
     (replicate 3 (Event ''member_curiosity'' w (replace_time base 8 0)), \<lambda>_. 0)"
  by (simp add: numeral_3_eq_3 zero_randint zero_random_time plus_days_def)

lemma week_one_events:
  "week_events clock (build_travel_plan 1) 1 (\<lambda>_. 0) =
     ([Event ''weekly_report'' 1 480, Event ''member_curiosity'' 1 480,
       Event ''member_curiosity'' 1 480, Event ''member_curiosity'' 1 480,
       Event ''wearable_anomaly'' 1 1920], \<lambda>_. 0)"
  by (simp add: week_events_def Let_def zero_randint zero_random_time zero_unit
      zero_curiosity_events destination_for_week_def build_travel_plan_def diagnostic_weeks_def
      datetime_for_def plus_days_def replace_time_def dt_day_def numeral_3_eq_3)

lemma build_events_one_week:
  "fst (build_events clock (build_travel_plan 1) 1 (\<lambda>_. 0)) =
     [Event ''weekly_report'' 1 480, Event ''member_curiosity'' 1 480,
       Event ''member_curiosity'' 1 480, Event ''member_curiosity'' 1 480,
       Event ''wearable_anomaly'' 1 1920]"
  by (simp add: build_events_def week_one_events [unfolded One_nat_def] Event_def)

text \<open>
  Claim C2 asks for one weekly update per week. The driver calls \<^verbatim>\<open>begin_week\<close> at
  every event that falls on a Monday between hour 8 and 12: the calls of a run are the
  weeks of those events, in order. In the one-week run where every draw is 0 the weekly
  report and the three member questions fall on Monday 08:00, and week 1 is updated
  four times.
\<close>

theorem begin_week_fires_at_every_window_event:
  "begin_week_calls (run_events clock tp T events rs)
     = begin_week_calls rs @ map week (filter (in_monday_window clock) events)
   \<and> begin_week_calls (main \<lparr>start_weekday = 0\<rparr> T delegate 1 (\<lambda>_. 0)) = [1, 1, 1, 1]"
proof
  show "begin_week_calls (run_events clock tp T events rs)
     = begin_week_calls rs @ map week (filter (in_monday_window clock) events)"
    by (rule run_events_begin_week_calls)
  have ev: "build_events \<lparr>start_weekday = 0\<rparr> (build_travel_plan 1) 1 (\<lambda>_. 0)
      = (fst (build_events \<lparr>start_weekday = 0\<rparr> (build_travel_plan 1) 1 (\<lambda>_. 0)),
         snd (build_events \<lparr>start_weekday = 0\<rparr> (build_travel_plan 1) 1 (\<lambda>_. 0)))"
    by simp
  show "begin_week_calls (main \<lparr>start_weekday = 0\<rparr> T delegate 1 (\<lambda>_. 0)) = [1, 1, 1, 1]"
    unfolding main_def Let_def case_prod_beta run_events_begin_week_calls build_events_one_week
    by (simp add: initial_run_def in_monday_window_def weekday_def dt_day_def dt_hour_def Event_def)
qed

text \<open>The diagnostics events of the scheduler.\<close>

lemma kind_Event: "kind (Event k w t) = k"
  by (simp add: Event_def)

lemma curiosity_events_no_results:
  "filter (\<lambda>e. kind e = ''diagnostics_results'') (fst (curiosity_events n w base g)) = []"
  by (induction n arbitrary: g) (simp_all add: case_prod_beta kind_Event)

lemma optional_stage:
  "\<exists>evs g'. (if c then (case random_time b lo hi g of (t, g') \<Rightarrow> ([Event k w t], g'))
            else ([], g)) = (evs, g')
      \<and> filter (\<lambda>e. kind e = ''diagnostics_results'') evs
          = (if k = ''diagnostics_results'' then evs else [])"
  by (cases c) (auto simp: case_prod_beta kind_Event)

lemma travel_stage:
  "\<exists>evs g'. (case dest_opt of
              None \<Rightarrow> ([], g)
            | Some dest \<Rightarrow>
                if dest = [] then ([], g)
                else (case random_time b 8 20 g of (t, g') \<Rightarrow>
                        ([(Event ''travel_adaptation'' w t)\<lparr>meta := Some [''dest'' \<mapsto> dest]\<rparr>], g')))
            = (evs, g')
      \<and> filter (\<lambda>e. kind e = ''diagnostics_results'') evs = []"
  by (cases dest_opt) (auto simp: case_prod_beta kind_Event Event_def)

lemma diagnostics_stage:
  "\<exists>evs g'. (if c
            then (case random_time b 8 11 g of (t_sched, g') \<Rightarrow>
                  case random_time (plus_days b 4) 13 18 g' of (t_res, g'') \<Rightarrow>
                    ([Event ''diagnostics_schedule'' w t_sched,
                      Event ''diagnostics_results'' w t_res], g''))
            else ([], g)) = (evs, g')
      \<and> length (filter (\<lambda>e. kind e = ''diagnostics_results'') evs) = (if c then 1 else 0)"
  by (cases c) (auto simp: case_prod_beta kind_Event Let_def)

lemma wearable_stage:
  "\<exists>evs g'. (if c
            then (case randint 1 6 g of (day, g') \<Rightarrow>
                  case random_time (plus_days b day) 8 20 g' of (t, g'') \<Rightarrow>
                    ([Event ''wearable_anomaly'' w t], g''))
            else ([], g)) = (evs, g')
      \<and> filter (\<lambda>e. kind e = ''diagnostics_results'') evs = []"
  by (cases c) (auto simp: case_prod_beta kind_Event)

lemma week_events_results:
  "length (filter (\<lambda>e. kind e = ''diagnostics_results'') (fst (week_events clock tp w g)))
     = (if w \<in> set diagnostic_weeks then 1 else 0)"
proof -
  let ?R = "\<lambda>e. kind e = ''diagnostics_results''"
  let ?b = "datetime_for clock w 0 9 0"
  obtain t1 g1 where s1: "random_time ?b 8 20 g = (t1, g1)"
    by force
  from optional_stage [where c = "w mod 2 = 0" and b = ?b and lo = 8 and hi = 20 and g = g1
      and k = "''exercise_update''" and w = w]
  obtain ex g2 where s2: "(if w mod 2 = 0
            then (case random_time ?b 8 20 g1 of (t, g') \<Rightarrow>
                    ([Event ''exercise_update'' w t], g'))
            else ([], g1)) = (ex, g2)" and f2: "filter ?R ex = []"
    by auto
  from optional_stage [where c = "w mod 2 = 0" and b = ?b and lo = 10 and hi = 14 and g = g2
      and k = "''medical_checkin''" and w = w]
  obtain med g3 where s3: "(if w mod 2 = 0
            then (case random_time ?b 10 14 g2 of (t, g') \<Rightarrow>
                    ([Event ''medical_checkin'' w t], g'))
            else ([], g2)) = (med, g3)" and f3: "filter ?R med = []"
    by auto
  from optional_stage [where c = "w \<in> {3, 7, 11, 15, 19, 23, 27, 31}" and b = ?b and lo = 11
      and hi = 16 and g = g3 and k = "''nutrition_update''" and w = w]
  obtain nut g4 where s4: "(if w \<in> {3, 7, 11, 15, 19, 23, 27, 31}
            then (case random_time ?b 11 16 g3 of (t, g') \<Rightarrow>
                    ([Event ''nutrition_update'' w t], g'))
            else ([], g3)) = (nut, g4)" and f4: "filter ?R nut = []"
    by auto
  from travel_stage [where dest_opt = "destination_for_week tp w" and g = g4 and b = ?b and w = w]
  obtain trav g5 where s5: "(case destination_for_week tp w of
              None \<Rightarrow> ([], g4)
            | Some dest \<Rightarrow>
                if dest = [] then ([], g4)
                else (case random_time ?b 8 20 g4 of (t, g') \<Rightarrow>
                        ([(Event ''travel_adaptation'' w t)\<lparr>meta := Some [''dest'' \<mapsto> dest]\<rparr>], g')))
            = (trav, g5)" and f5: "filter ?R trav = []"
    by auto
  from diagnostics_stage [where c = "w \<in> set diagnostic_weeks" and b = ?b and g = g5 and w = w]
  obtain diag g6 where s6: "(if w \<in> set diagnostic_weeks
            then (case random_time ?b 8 11 g5 of (t_sched, g') \<Rightarrow>
                  case random_time (plus_days ?b 4) 13 18 g' of (t_res, g'') \<Rightarrow>
                    ([Event ''diagnostics_schedule'' w t_sched,
                      Event ''diagnostics_results'' w t_res], g''))
            else ([], g5)) = (diag, g6)"
    and f6: "length (filter ?R diag) = (if w \<in> set diagnostic_weeks then 1 else 0)"
    by auto
  obtain weekly_count g7 where s7: "randint 3 7 g6 = (weekly_count, g7)"
    by force
  obtain cur g8 where s8: "curiosity_events (nat weekly_count) w ?b g7 = (cur, g8)"
    by force
  have f8: "filter ?R cur = []"
    using curiosity_events_no_results [of "nat weekly_count" w ?b g7] by (simp add: s8)
  obtain u g9 where s9: "random_unit g8 = (u, g9)"
    by force
  from wearable_stage [where c = "u < 0.5" and g = g9 and b = ?b and w = w]
  obtain wear g10 where s10: "(if u < 0.5
            then (case randint 1 6 g9 of (day, g') \<Rightarrow>
                  case random_time (plus_days ?b day) 8 20 g' of (t, g'') \<Rightarrow>
                    ([Event ''wearable_anomaly'' w t], g''))
            else ([], g9)) = (wear, g10)" and f10: "filter ?R wear = []"
    by auto
  have "week_events clock tp w g =
      ([Event ''weekly_report'' w t1] @ ex @ med @ nut @ trav @ diag @ cur @ wear, g10)"
    unfolding week_events_def Let_def s1 prod.case s2 s3 s4 s5 s6 s7 s8 s9 s10
    by (rule refl)
  then show ?thesis
    by (simp add: kind_Event f2 f3 f4 f5 f6 f8 f10)
qed

lemma weeks_loop_results:
  "length (filter (\<lambda>e. kind e = ''diagnostics_results'') (fst (weeks_loop clock tp w n g)))
     = length (filter (\<lambda>w. w \<in> set diagnostic_weeks) [w..<w + n])"
proof (induction n arbitrary: w g)
  case 0
  show ?case by simp
next
  case (Suc n)
  have "[w..<w + Suc n] = w # [Suc w..<Suc w + n]"
    by (simp add: upt_conv_Cons)
  then show ?case
    using Suc [of "Suc w"] by (simp add: case_prod_beta week_events_results)
qed

lemma build_events_results:
  "length (filter (\<lambda>e. kind e = ''diagnostics_results'') (fst (build_events clock tp n g)))
     = length (filter (\<lambda>w. w \<in> set diagnostic_weeks) [1..<1 + n])"
  by (simp add: build_events_def case_prod_beta filter_sort weeks_loop_results del: upt_Suc)

text \<open>
  Claim C1 asks for diagnostics events at weeks 4, 16, 28, 40 and so on. The scheduler
  knows the weeks 4, 16 and 28 only: over 40 weeks it schedules three diagnostics-results
  events, whatever the draws, where the validator's cadence has four weeks and expects
  four.
\<close>

theorem scheduler_misses_week_40:
  "length (filter (\<lambda>e. kind e = ''diagnostics_results'') (fst (build_events clock tp 40 g))) = 3
   \<and> validator_diagnostic_weeks 40 = [4, 16, 28, 40]
   \<and> expected_diagnostics_count 40 = 4"
proof -
  have "filter (\<lambda>w. w \<in> set diagnostic_weeks) [1..<1 + 40] = [4, 16, 28]"
    by code_simp
  then have 1: "length (filter (\<lambda>e. kind e = ''diagnostics_results'') (fst (build_events clock tp 40 g))) = 3"
    by (simp only: build_events_results) simp
  have 2: "validator_diagnostic_weeks 40 = [4, 16, 28, 40]"
    by (simp add: validator_diagnostic_weeks_def)
  show ?thesis
    using 1 2 by (simp add: expected_diagnostics_count_def)
qed

end
